theory Spec2Isabelle
  imports Complex_Main "HOL-Library.AList"
begin

section \<open>textClust: the micro-cluster engine of river/cluster/textclust.py\<close>

text \<open>
  Conventions of the embedding.
  \<^item> A Python \<open>float\<close> (and an \<open>int\<close> used in float arithmetic) is a \<open>real\<close>: the
    arithmetic is the exact one, rounding error, overflow and NaN are not modelled.
    \<open>pow(2, x)\<close> and \<open>2 ** x\<close> are \<open>2 powr x\<close>, \<open>math.log\<close> is \<open>ln\<close>,
    \<open>math.sqrt\<close> is \<open>sqrt\<close> on the non-negative reals and raises \<open>ValueError\<close> below.
    One expression is kept out of this idealisation: the argument of \<open>math.sqrt\<close> in
    \<open>_get_closest_mc\<close> is a difference of two quantities that are equal when the least
    distance is 0 and the other distances are equal to each other, so that rounding
    decides its sign there, and the sign decides between a result and \<open>ValueError\<close>. The
    functions that reach it take the value of that expression from a parameter \<open>var\<close>;
    \<open>exact_variance\<close> is its exact value.
  \<^item> A Python \<open>dict\<close> is an association list in insertion order whose keys are
    distinct (\<open>is_dict\<close>): \<open>map_of\<close> reads a key, \<open>AList.update\<close> writes one (in place
    when the key is present, appended otherwise), \<open>AList.delete\<close> removes one.
  \<^item> An exception is a value of \<open>py_error\<close>; a function that can raise returns
    \<open>py_error + 'a\<close>, and a method that mutates objects before it raises returns the
    mutated objects beside the outcome.
  \<^item> \<open>None\<close> is \<open>None\<close>: a time stamp is a \<open>real option\<close>, a record identifier a
    \<open>nat option\<close>.
  Names follow the source. Where a name clashes, a micro-cluster's \<open>id\<close>, \<open>n\<close>, \<open>time\<close> and
  \<open>realtime\<close> are written \<open>clusterid\<close>, \<open>mc_n\<close>, \<open>mc_time\<close> and \<open>mc_realtime\<close>, the
  clusterer's \<open>n\<close>, \<open>t\<close> and \<open>_lambda\<close> are \<open>n_obs\<close>, \<open>t_now\<close> and \<open>lambda\<close>, and a leading
  underscore of a method name is dropped.
\<close>

datatype py_error =
  KeyError | TypeError | ValueError | IndexError | UnboundLocalError | RecursionError
  | AttributeError

type_synonym ('k, 'v) dict = "('k \<times> 'v) list"

definition is_dict :: "('k, 'v) dict \<Rightarrow> bool" where
  "is_dict d = distinct (map fst d)"

definition keys :: "('k, 'v) dict \<Rightarrow> 'k list" where
  "keys d = map fst d"

definition dict_values :: "('k, 'v) dict \<Rightarrow> 'v list" where
  "dict_values d = map snd d"

subsection \<open>Micro-clusters\<close>

text \<open>The inner dictionary \<open>{"tf": ..., "ids": [...]}\<close> a term maps to.\<close>

record tfentry =
  tfvalue :: real
  ids :: "nat option list"

record microcluster =
  clusterid :: "nat option"
  weight :: real
  mc_time :: "real option"
  tf :: "(string, tfentry) dict"
  oldweight :: real
  deltaweight :: real
  mc_realtime :: "real option"
  textids :: "nat option list"
  mc_n :: nat

text \<open>\<open>microcluster.__init__(tf, time, weight, realtime, textid, clusterid)\<close>.\<close>

definition new_microcluster ::
  "(string, tfentry) dict \<Rightarrow> real option \<Rightarrow> real \<Rightarrow> real option \<Rightarrow> nat option \<Rightarrow> nat option
    \<Rightarrow> microcluster" where
  "new_microcluster tf0 time0 weight0 realtime0 textid cid =
     \<lparr>clusterid = cid, weight = weight0, mc_time = time0, tf = tf0, oldweight = 0,
      deltaweight = 0, mc_realtime = realtime0, textids = [textid], mc_n = 1\<rparr>"

text \<open>
  The loop of \<open>fade\<close> over the terms: each frequency is multiplied by the factor
  \<open>f = pow(2, -_lambda * (tnow - self.time))\<close>, and the term is deleted when the faded
  frequency is at or below \<open>omega\<close>.
\<close>

fun fade_terms :: "real \<Rightarrow> real \<Rightarrow> (string, tfentry) dict \<Rightarrow> (string, tfentry) dict" where
  "fade_terms f om [] = []"
| "fade_terms f om ((k, e) # rest) =
     (if tfvalue e * f \<le> om then fade_terms f om rest
      else (k, e\<lparr>tfvalue := tfvalue e * f\<rparr>) # fade_terms f om rest)"

text \<open>
  \<open>microcluster.fade(tnow, omega, _lambda, termfading, realtime)\<close>. The subtraction
  \<open>tnow - self.time\<close> raises \<open>TypeError\<close> when either side is \<open>None\<close>; it is evaluated
  before the first assignment, so a failing \<open>fade\<close> leaves the cluster as it was.
\<close>

definition fade ::
  "microcluster \<Rightarrow> real option \<Rightarrow> real \<Rightarrow> real \<Rightarrow> bool \<Rightarrow> real option
    \<Rightarrow> py_error + microcluster" where
  "fade self tnow om lam tfd rt =
     (case tnow of
        None \<Rightarrow> Inl TypeError
      | Some tn \<Rightarrow>
          (case mc_time self of
             None \<Rightarrow> Inl TypeError
           | Some tm \<Rightarrow>
               Inr (self\<lparr>weight := weight self * 2 powr (- lam * (tn - tm)),
                         tf := (if tfd
                                then fade_terms (2 powr (- lam * (tn - tm))) om (tf self)
                                else tf self),
                         mc_time := Some tn,
                         mc_realtime := rt\<rparr>)))"

text \<open>
  The last loop of \<open>merge\<close>: every term of the source is added into the target's term
  map, the frequencies summed and the identifier lists concatenated when the target has
  the term, a fresh entry appended otherwise.
\<close>

fun merge_terms :: "(string, tfentry) dict \<Rightarrow> (string, tfentry) dict \<Rightarrow> (string, tfentry) dict" where
  "merge_terms stf [] = stf"
| "merge_terms stf ((k, e) # rest) =
     merge_terms
       (case map_of stf k of
          Some se \<Rightarrow> AList.update k (se\<lparr>tfvalue := tfvalue se + tfvalue e, ids := ids se @ ids e\<rparr>) stf
        | None \<Rightarrow> AList.update k \<lparr>tfvalue = tfvalue e, ids = ids e\<rparr> stf)
       rest"

text \<open>
  \<open>microcluster.merge(microcluster, t, omega, _lambda, termfading, realtime)\<close>. Both
  objects are mutated in place, so the result holds the target, the source and the
  exception if one was raised: the text identifiers, \<open>realtime\<close> and the weight of the
  target are assigned before the first \<open>fade\<close> can raise.
\<close>

definition merge ::
  "microcluster \<Rightarrow> microcluster \<Rightarrow> real option \<Rightarrow> real \<Rightarrow> real \<Rightarrow> bool \<Rightarrow> real option
    \<Rightarrow> microcluster \<times> microcluster \<times> py_error option" where
  "merge self other t om lam tfd rt =
     (let self1 = self\<lparr>textids := textids self @ textids other,
                        mc_realtime := rt,
                        weight := weight self + weight other\<rparr>
      in case fade self1 t om lam tfd rt of
           Inl e \<Rightarrow> (self1, other, Some e)
         | Inr self2 \<Rightarrow>
             (case fade other t om lam tfd rt of
                Inl e \<Rightarrow> (self2, other, Some e)
              | Inr other2 \<Rightarrow>
                  (self2\<lparr>mc_time := t, tf := merge_terms (tf self2) (tf other2)\<rparr>,
                   other2, None)))"

subsection \<open>The IDF table\<close>

text \<open>
  The first loop of \<open>_calculateIDF\<close>: \<open>count_keys\<close> is the inner loop over the terms of
  one micro-cluster, \<open>count_df\<close> the outer loop over the micro-clusters.
\<close>

fun count_keys :: "string list \<Rightarrow> (string, nat) dict \<Rightarrow> (string, nat) dict" where
  "count_keys [] result = result"
| "count_keys (k # ks) result =
     count_keys ks
       (case map_of result k of
          None \<Rightarrow> AList.update k 1 result
        | Some c \<Rightarrow> AList.update k (c + 1) result)"

fun count_df :: "microcluster list \<Rightarrow> (string, nat) dict \<Rightarrow> (string, nat) dict" where
  "count_df [] result = result"
| "count_df (micro # rest) result = count_df rest (count_keys (keys (tf micro)) result)"

text \<open>
  \<open>_calculateIDF(microclusters)\<close>: the second loop replaces each count by
  \<open>1 + math.log(len(microclusters) / count)\<close>. A count is at least 1 and the length is
  then at least 1, so neither the division nor the logarithm raises.
\<close>

definition calculateIDF :: "microcluster list \<Rightarrow> (string, real) dict" where
  "calculateIDF mcs =
     map (\<lambda>(k, c). (k, 1 + ln (real (length mcs) / real c))) (count_df mcs [])"

subsection \<open>The distance\<close>

text \<open>
  \<open>round(x, ndigits)\<close> on exact reals: the nearest multiple of \<open>10 ^ (- ndigits)\<close>, a tie
  going to the even one.
\<close>

definition round_half_even :: "real \<Rightarrow> int" where
  "round_half_even x =
     (if x - of_int \<lfloor>x\<rfloor> < 1 / 2 then \<lfloor>x\<rfloor>
      else if 1 / 2 < x - of_int \<lfloor>x\<rfloor> then \<lfloor>x\<rfloor> + 1
      else if even \<lfloor>x\<rfloor> then \<lfloor>x\<rfloor> else \<lfloor>x\<rfloor> + 1)"

definition py_round :: "real \<Rightarrow> nat \<Rightarrow> real" where
  "py_round x ndigits = of_int (round_half_even (x * 10 ^ ndigits)) / 10 ^ ndigits"

text \<open>
  The first loop of \<open>tfidf_cosine_distance\<close>, over the terms of \<open>mc\<close>, with the
  accumulators \<open>sum\<close> and \<open>tfidflen\<close>: a term that the IDF table does not have is skipped.
\<close>

fun cosine_loop1 ::
  "(string, tfentry) dict \<Rightarrow> (string, tfentry) dict \<Rightarrow> (string, real) dict \<Rightarrow> real \<times> real
    \<Rightarrow> real \<times> real" where
  "cosine_loop1 [] mtf idf (s, l) = (s, l)"
| "cosine_loop1 ((k, e) # rest) mtf idf (s, l) =
     (case map_of idf k of
        None \<Rightarrow> cosine_loop1 rest mtf idf (s, l)
      | Some w \<Rightarrow>
          cosine_loop1 rest mtf idf
            (case map_of mtf k of
               None \<Rightarrow> s
             | Some e' \<Rightarrow> s + (tfvalue e * w) * (tfvalue e' * w),
             l + tfvalue e * w * tfvalue e * w))"

text \<open>
  The second loop, over the terms of \<open>microcluster\<close>, with the accumulator
  \<open>microtfidflen\<close>: \<open>idf[k]\<close> raises \<open>KeyError\<close> for a term the table does not have.
\<close>

fun cosine_loop2 :: "(string, tfentry) dict \<Rightarrow> (string, real) dict \<Rightarrow> real \<Rightarrow> py_error + real" where
  "cosine_loop2 [] idf l = Inr l"
| "cosine_loop2 ((k, e) # rest) idf l =
     (case map_of idf k of
        None \<Rightarrow> Inl KeyError
      | Some w \<Rightarrow> cosine_loop2 rest idf (l + tfvalue e * w * tfvalue e * w))"

text \<open>
  \<open>distances.tfidf_cosine_distance(mc, microcluster, idf)\<close>. Both accumulated lengths are
  sums of squares, so \<open>math.sqrt\<close> does not raise.
\<close>

definition tfidf_cosine_distance ::
  "microcluster \<Rightarrow> microcluster \<Rightarrow> (string, real) dict \<Rightarrow> py_error + real" where
  "tfidf_cosine_distance mc micro idf =
     (case cosine_loop1 (tf mc) (tf micro) idf (0, 0) of
        (s, l) \<Rightarrow>
          (case cosine_loop2 (tf micro) idf 0 of
             Inl e \<Rightarrow> Inl e
           | Inr l' \<Rightarrow>
               (if sqrt l = 0 \<or> sqrt l' = 0 then Inr 1
                else Inr (py_round (1 - s / (sqrt l * sqrt l')) 10))))"

text \<open>
  \<open>distances.dist(m1, m2, idf)\<close> looks the configured name up on the \<open>distances\<close> object
  with \<open>getattr\<close> and calls what it finds with the three arguments, so that it returns a
  number or whatever else the attribute returns. The name \<open>tfidf_cosine_distance\<close> finds
  the metric. The name \<open>dist\<close> finds this method itself, which recurses until
  \<open>RecursionError\<close>. The name \<open>__subclasshook__\<close> finds the class method that \<open>object\<close>
  gives every class: it accepts any arguments and returns the constant \<open>NotImplemented\<close>.
  Every other name raises \<open>TypeError\<close> at the call: the instance attribute \<open>type\<close> and
  the data attributes of \<open>object\<close> are not callable, \<open>__init__\<close>, \<open>__class__\<close>, \<open>__new__\<close>
  and the other methods of \<open>object\<close> do not take these three arguments, and a name that
  is no attribute gets the default \<open>lambda: "Invalid distance measure"\<close>, which takes no
  argument.
\<close>

datatype dist_value = Number real | NotImplemented

definition dist ::
  "string \<Rightarrow> microcluster \<Rightarrow> microcluster \<Rightarrow> (string, real) dict \<Rightarrow> py_error + dist_value" where
  "dist type_name m1 m2 idf =
     (if type_name = ''tfidf_cosine_distance'' then
        (case tfidf_cosine_distance m1 m2 idf of Inl e \<Rightarrow> Inl e | Inr d \<Rightarrow> Inr (Number d))
      else if type_name = ''dist'' then Inl RecursionError
      else if type_name = ''__subclasshook__'' then Inr NotImplemented
      else Inl TypeError)"

text \<open>
  The distance in the specification's words (4.2), to compare with the loops above:
  the value of a term in a cluster is \<open>tf * idf\<close>, 0 when the cluster or the table does
  not have the term; the cosine similarity is the dot product over the product of the
  norms.
\<close>

definition spec_tfidf :: "microcluster \<Rightarrow> (string, real) dict \<Rightarrow> string \<Rightarrow> real" where
  "spec_tfidf c idf k =
     (case map_of (tf c) k of
        None \<Rightarrow> 0
      | Some e \<Rightarrow> (case map_of idf k of None \<Rightarrow> 0 | Some w \<Rightarrow> tfvalue e * w))"

definition spec_dot :: "microcluster \<Rightarrow> microcluster \<Rightarrow> (string, real) dict \<Rightarrow> real" where
  "spec_dot a b idf =
     (\<Sum>k \<in> set (keys (tf a)) \<union> set (keys (tf b)). spec_tfidf a idf k * spec_tfidf b idf k)"

definition spec_norm :: "microcluster \<Rightarrow> (string, real) dict \<Rightarrow> real" where
  "spec_norm c idf = sqrt (\<Sum>k \<in> set (keys (tf c)). (spec_tfidf c idf k)\<^sup>2)"

definition spec_cosine_similarity ::
  "microcluster \<Rightarrow> microcluster \<Rightarrow> (string, real) dict \<Rightarrow> real" where
  "spec_cosine_similarity a b idf = spec_dot a b idf / (spec_norm a idf * spec_norm b idf)"

subsection \<open>The clusterer\<close>

record textclust =
  radius :: real
  lambda :: real
  tgap :: real
  termfading :: bool
  num_macro :: nat
  realtimefading :: bool
  min_weight :: real
  auto_r :: bool
  auto_merge :: bool
  sigma :: real
  num_merged_obs :: nat
  t_now :: "real option"
  lastCleanup :: "real option"
  n_obs :: nat
  omega :: real
  assignment :: "(nat, nat) dict"
  microclusters :: "(nat, microcluster) dict"
  clusterId :: nat
  microToMacro :: "(nat, nat) dict option"
  upToDate :: bool
  realtime :: "real option"
  dist_mean :: real
  micro_distance :: string
  macro_distance :: string

text \<open>
  \<open>textclust.__init__\<close>. The two \<open>distances\<close> objects only store the configured name, so
  they are the names themselves; nothing in the constructor raises.
\<close>

definition init ::
  "real \<Rightarrow> real \<Rightarrow> real \<Rightarrow> bool \<Rightarrow> bool \<Rightarrow> string \<Rightarrow> string \<Rightarrow> nat \<Rightarrow> real \<Rightarrow> bool \<Rightarrow> bool
    \<Rightarrow> real \<Rightarrow> textclust" where
  "init radius' lambda' tgap' termfading' realtimefading' micro_distance' macro_distance'
        num_macro' min_weight' auto_r' auto_merge' sigma' =
     \<lparr>radius = radius', lambda = lambda', tgap = tgap', termfading = termfading',
      num_macro = num_macro', realtimefading = realtimefading', min_weight = min_weight',
      auto_r = auto_r', auto_merge = auto_merge', sigma = sigma',
      num_merged_obs = 0, t_now = None, lastCleanup = Some 0, n_obs = 1,
      omega = 2 powr (- 1 * lambda' * tgap'),
      assignment = [], microclusters = [], clusterId = 0, microToMacro = None,
      upToDate = False, realtime = None, dist_mean = 0,
      micro_distance = micro_distance', macro_distance = macro_distance'\<rparr>"

text \<open>
  The loop of \<open>_get_closest_mc\<close> over the live micro-clusters, with the accumulators
  \<open>(min_dist, smallest_key, sumdist, squaresum, counter)\<close>. When \<open>dist\<close> returned
  \<open>NotImplemented\<close>, \<open>sumdist += dist\<close> raises \<open>TypeError\<close>.
\<close>

fun closest_loop ::
  "string \<Rightarrow> microcluster \<Rightarrow> (string, real) dict \<Rightarrow> (nat, microcluster) dict
    \<Rightarrow> real \<times> nat option \<times> real \<times> real \<times> nat
    \<Rightarrow> py_error + (real \<times> nat option \<times> real \<times> real \<times> nat)" where
  "closest_loop dn mc idf [] acc = Inr acc"
| "closest_loop dn mc idf ((key, micro) # rest) (min_d, smallest_key, sumdist, squaresum, counter) =
     (case dist dn mc micro idf of
        Inl e \<Rightarrow> Inl e
      | Inr NotImplemented \<Rightarrow> Inl TypeError
      | Inr (Number d) \<Rightarrow>
          closest_loop dn mc idf rest
            (if d < min_d then d else min_d,
             if d < min_d then Some key else smallest_key,
             sumdist + d, squaresum + d\<^sup>2, counter + 1))"

text \<open>
  The argument of \<open>math.sqrt\<close> in \<open>_get_closest_mc\<close>,
  \<open>squaresum / (counter - 1) - mu**2\<close>, in exact arithmetic.
\<close>

definition exact_variance :: "real \<Rightarrow> nat \<Rightarrow> real \<Rightarrow> real" where
  "exact_variance squaresum counter mu = squaresum / (real counter - 1) - mu\<^sup>2"

text \<open>
  \<open>_get_closest_mc(mc, idf, distance)\<close> returns \<open>(clusterId, min_dist)\<close>. In the adaptive
  mode \<open>math.sqrt\<close> raises \<open>ValueError\<close> on a negative argument; \<open>var\<close> gives the
  value of the argument as the program computes it from \<open>squaresum\<close>, \<open>counter\<close> and
  \<open>mu\<close>.
\<close>

definition get_closest_mc ::
  "(real \<Rightarrow> nat \<Rightarrow> real \<Rightarrow> real) \<Rightarrow> textclust \<Rightarrow> microcluster \<Rightarrow> (string, real) dict \<Rightarrow> string
    \<Rightarrow> py_error + (nat option \<times> real)" where
  "get_closest_mc var s mc idf dn =
     (case closest_loop dn mc idf (microclusters s) (1, None, 0, 0, 0) of
        Inl e \<Rightarrow> Inl e
      | Inr (min_d, smallest_key, sumdist, squaresum, counter) \<Rightarrow>
          (if auto_r s then
             (if counter > 1 then
                (let mu = (sumdist - min_d) / (real counter - 1);
                     v = var squaresum counter mu
                 in if v < 0 then Inl ValueError
                    else Inr (if min_d < mu - sigma s * sqrt v then smallest_key else None, min_d))
              else Inr (None, min_d))
           else Inr (if min_d < radius s then smallest_key else None, min_d)))"

text \<open>
  The threshold policy in the specification's words (4.3), over the list \<open>ds\<close> of the
  distances to the live clusters: the minimum distance as the code starts it (at 1), and
  the adaptive threshold \<open>mu - sigma * sqrt (sumSquares / (n - 1) - mu\<^sup>2)\<close> with
  \<open>mu = (sumDistances - minDistance) / (n - 1)\<close>.
\<close>

definition spec_min_distance :: "real list \<Rightarrow> real" where
  "spec_min_distance ds = Min (insert 1 (set ds))"

definition spec_mu :: "real list \<Rightarrow> real" where
  "spec_mu ds = (sum_list ds - spec_min_distance ds) / (real (length ds) - 1)"

definition spec_variance :: "real list \<Rightarrow> real" where
  "spec_variance ds = sum_list (map (\<lambda>d. d\<^sup>2) ds) / (real (length ds) - 1) - (spec_mu ds)\<^sup>2"

definition spec_threshold :: "real \<Rightarrow> real list \<Rightarrow> real" where
  "spec_threshold sg ds = spec_mu ds - sg * sqrt (spec_variance ds)"

text \<open>
  The first loop of \<open>_updateweights\<close>: every live micro-cluster is faded in place. When a
  \<open>fade\<close> raises, the clusters before it stay faded.
\<close>

fun fade_all ::
  "real option \<Rightarrow> real \<Rightarrow> real \<Rightarrow> bool \<Rightarrow> real option \<Rightarrow> (nat, microcluster) dict
    \<Rightarrow> (nat, microcluster) dict \<times> py_error option" where
  "fade_all t om lam tfd rt [] = ([], None)"
| "fade_all t om lam tfd rt ((key, micro) # rest) =
     (case fade micro t om lam tfd rt of
        Inl e \<Rightarrow> ((key, micro) # rest, Some e)
      | Inr micro' \<Rightarrow>
          (case fade_all t om lam tfd rt rest of
             (rest', err) \<Rightarrow> ((key, micro') # rest', err)))"

text \<open>
  \<open>_updateweights()\<close>: fade, then delete every micro-cluster whose weight is at or below
  \<open>omega\<close> or whose term map is empty.
\<close>

definition updateweights :: "textclust \<Rightarrow> textclust \<times> py_error option" where
  "updateweights s =
     (case fade_all (t_now s) (omega s) (lambda s) (termfading s) (realtime s) (microclusters s) of
        (mcs, Some e) \<Rightarrow> (s\<lparr>microclusters := mcs\<rparr>, Some e)
      | (mcs, None) \<Rightarrow>
          (s\<lparr>microclusters :=
                filter (\<lambda>(key, micro). \<not> (weight micro \<le> omega s \<or> length (tf micro) = 0)) mcs\<rparr>,
           None))"

text \<open>
  \<open>_mergemicroclusters()\<close>. The list \<open>micro_keys\<close> and the dictionary lose the same key at
  each merge, so both are the one association list. \<open>merge_inner\<close> is the inner loop
  over \<open>j\<close> for the cluster at position \<open>i\<close>: it returns that cluster, the clusters after
  it that are left, and the exception if one was raised (\<open>m_dist < threshold\<close> raises
  \<open>TypeError\<close> when \<open>dist\<close> returned \<open>NotImplemented\<close>). The parameters are
  \<open>(distance name, idf, threshold, t, omega, lambda, termfading, realtime)\<close>.
\<close>

type_synonym merge_params =
  "string \<times> (string, real) dict \<times> real \<times> real option \<times> real \<times> real \<times> bool \<times> real option"

fun merge_inner ::
  "merge_params \<Rightarrow> nat \<times> microcluster \<Rightarrow> (nat, microcluster) dict
    \<Rightarrow> (nat \<times> microcluster) \<times> (nat, microcluster) dict \<times> py_error option" where
  "merge_inner p (ki, ci) [] = ((ki, ci), [], None)"
| "merge_inner (dn, idf, threshold, t, om, lam, tfd, rt) (ki, ci) ((kj, cj) # rest) =
     (case dist dn ci cj idf of
        Inl e \<Rightarrow> ((ki, ci), (kj, cj) # rest, Some e)
      | Inr NotImplemented \<Rightarrow> ((ki, ci), (kj, cj) # rest, Some TypeError)
      | Inr (Number m_dist) \<Rightarrow>
          (if m_dist < threshold then
             (case merge ci cj t om lam tfd rt of
                (ci', cj', Some e) \<Rightarrow> ((ki, ci'), (kj, cj') # rest, Some e)
              | (ci', cj', None) \<Rightarrow>
                  merge_inner (dn, idf, threshold, t, om, lam, tfd, rt) (ki, ci') rest)
           else
             (case merge_inner (dn, idf, threshold, t, om, lam, tfd, rt) (ki, ci) rest of
                (c', rest', err) \<Rightarrow> (c', (kj, cj) # rest', err))))"

lemma merge_inner_length:
  "merge_inner p c rest = (c', rest', err) \<Longrightarrow> length rest' \<le> length rest"
proof (induction p c rest arbitrary: c' rest' err rule: merge_inner.induct)
  case (1 p ki ci)
  then show ?case by simp
next
  case (2 dn idf threshold t om lam tfd rt ki ci kj cj rest)
  show ?case
  proof (cases "dist dn ci cj idf")
    case (Inl e)
    with "2.prems" show ?thesis by auto
  next
    case (Inr dv)
    show ?thesis
    proof (cases dv)
      case NotImplemented
      with "2.prems" Inr show ?thesis by auto
    next
      case (Number m_dist)
      note d = Inr [unfolded Number]
      show ?thesis
      proof (cases "m_dist < threshold")
        case True
        obtain ci' cj' merr where m: "merge ci cj t om lam tfd rt = (ci', cj', merr)"
          by (cases "merge ci cj t om lam tfd rt") auto
        show ?thesis
        proof (cases merr)
          case None
          with "2.prems" d True m
          have "merge_inner (dn, idf, threshold, t, om, lam, tfd, rt) (ki, ci') rest = (c', rest', err)"
            by simp
          from "2.IH"(1) [OF Inr Number True m [symmetric] refl None this]
          show ?thesis by simp
        next
          case (Some e)
          with "2.prems" d True m show ?thesis by auto
        qed
      next
        case False
        obtain c2 rest2 err2
          where r: "merge_inner (dn, idf, threshold, t, om, lam, tfd, rt) (ki, ci) rest = (c2, rest2, err2)"
          by (cases "merge_inner (dn, idf, threshold, t, om, lam, tfd, rt) (ki, ci) rest") auto
        from "2.IH"(2) [OF Inr Number False r] have "length rest2 \<le> length rest" .
        with "2.prems" d False r show ?thesis by auto
      qed
    qed
  qed
qed

text \<open>\<open>merge_outer\<close> is the outer loop over \<open>i\<close>.\<close>

function merge_outer ::
  "merge_params \<Rightarrow> (nat, microcluster) dict \<Rightarrow> (nat, microcluster) dict \<times> py_error option" where
  "merge_outer p [] = ([], None)"
| "merge_outer p (c # rest) =
     (case merge_inner p c rest of
        (c', rest', Some e) \<Rightarrow> (c' # rest', Some e)
      | (c', rest', None) \<Rightarrow>
          (case merge_outer p rest' of
             (rest'', err) \<Rightarrow> (c' # rest'', err)))"
  by pat_completeness auto
termination
proof (relation "measure (\<lambda>(p, mcs). length mcs)")
  show "wf (measure (\<lambda>(p, mcs). length mcs))" by simp
next
  fix p :: merge_params and c rest x1 x2 y x22
  assume "(x1, x2) = merge_inner p c rest" and "(y, x22) = x2"
  then have "merge_inner p c rest = (x1, y, x22)" by simp
  from merge_inner_length [OF this]
  show "((p, y), (p, c # rest)) \<in> measure (\<lambda>(p, mcs). length mcs)" by simp
qed

definition mergemicroclusters :: "textclust \<Rightarrow> textclust \<times> py_error option" where
  "mergemicroclusters s =
     (let idf = calculateIDF (dict_values (microclusters s));
          threshold = (if auto_r s then dist_mean s / (real (num_merged_obs s) + 1) else radius s)
      in case merge_outer (micro_distance s, idf, threshold, t_now s, omega s, lambda s,
                           termfading s, realtime s) (microclusters s) of
           (mcs, err) \<Rightarrow> (s\<lparr>microclusters := mcs\<rparr>, err))"

text \<open>\<open>_cleanup()\<close>.\<close>

definition cleanup :: "textclust \<Rightarrow> textclust \<times> py_error option" where
  "cleanup s =
     (case updateweights (s\<lparr>lastCleanup := t_now s\<rparr>) of
        (s1, Some e) \<Rightarrow> (s1, Some e)
      | (s1, None) \<Rightarrow>
          (let s2 = s1\<lparr>microclusters :=
                        map (\<lambda>(key, micro).
                               (key, micro\<lparr>deltaweight := weight micro - oldweight micro,
                                          oldweight := weight micro\<rparr>))
                            (microclusters s1)\<rparr>
           in case (if auto_merge s2 then mergemicroclusters s2 else (s2, None)) of
                (s3, Some e) \<Rightarrow> (s3, Some e)
              | (s3, None) \<Rightarrow> (s3\<lparr>dist_mean := 0, num_merged_obs := 0\<rparr>, None)))"

subsection \<open>\<open>learn_one\<close>\<close>

text \<open>The term map built from the input: every term gets its frequency and \<open>[id]\<close>.\<close>

definition make_ngrams :: "(string, real) dict \<Rightarrow> nat option \<Rightarrow> (string, tfentry) dict" where
  "make_ngrams x i = map (\<lambda>(key, v). (key, \<lparr>tfvalue = v, ids = [i]\<rparr>)) x"

text \<open>
  The branch \<open>if clusterId is not None\<close> of \<open>learn_one\<close>: the observation \<open>mc\<close> is
  merged into the live cluster \<open>cid\<close>. The result is the state and the local variable
  \<open>clusterId\<close>, or the exception raised.
\<close>

definition learn_one_merge ::
  "textclust \<Rightarrow> microcluster \<Rightarrow> nat \<Rightarrow> real \<Rightarrow> textclust \<times> (py_error + nat)" where
  "learn_one_merge s mc cid min_d =
     (let s1 = s\<lparr>num_merged_obs := num_merged_obs s + 1\<rparr>
      in case map_of (microclusters s1) cid of
           None \<Rightarrow> (s1, Inl KeyError)
         | Some micro \<Rightarrow>
             (case merge (micro\<lparr>mc_n := mc_n micro + 1\<rparr>) mc (t_now s1) (omega s1)
                         (lambda s1) (termfading s1) (realtime s1) of
                (micro', mc', Some e) \<Rightarrow>
                  (s1\<lparr>microclusters := AList.update cid micro' (microclusters s1)\<rparr>, Inl e)
              | (micro', mc', None) \<Rightarrow>
                  (s1\<lparr>microclusters := AList.update cid micro' (microclusters s1),
                      assignment := AList.update (n_obs s1) cid (assignment s1),
                      dist_mean := dist_mean s1 + min_d\<rparr>,
                   Inr cid)))"

text \<open>
  The \<open>else\<close> branch: the observation is stored as a new live cluster under
  \<open>self.clusterId\<close>.
\<close>

definition learn_one_new ::
  "textclust \<Rightarrow> microcluster \<Rightarrow> real \<Rightarrow> textclust \<times> (py_error + nat)" where
  "learn_one_new s mc min_d =
     (s\<lparr>dist_mean := dist_mean s + min_d,
        assignment := AList.update (n_obs s) (clusterId s) (assignment s),
        microclusters := AList.update (clusterId s) mc (microclusters s),
        clusterId := clusterId s + 1\<rparr>,
      Inr (clusterId s))"

text \<open>The branch \<open>if len(ngrams) > 0\<close> of \<open>learn_one\<close>.\<close>

definition learn_one_process ::
  "(real \<Rightarrow> nat \<Rightarrow> real \<Rightarrow> real) \<Rightarrow> textclust \<Rightarrow> (string, tfentry) dict \<Rightarrow> nat option
    \<Rightarrow> textclust \<times> (py_error + nat)" where
  "learn_one_process var s ngrams i =
     (let mc = new_microcluster ngrams (t_now s) 1 (realtime s) i (Some (clusterId s));
          idf = calculateIDF (dict_values (microclusters s))
      in case get_closest_mc var s mc idf (micro_distance s) of
           Inl e \<Rightarrow> (s, Inl e)
         | Inr (Some cid, min_d) \<Rightarrow> learn_one_merge s mc cid min_d
         | Inr (None, min_d) \<Rightarrow> learn_one_new s mc min_d)"

text \<open>
  The test \<open>self.lastCleanup is None or self.t - self.lastCleanup >= self.tgap\<close>; the
  subtraction raises \<open>TypeError\<close> when \<open>self.t\<close> is \<open>None\<close>.
\<close>

definition cleanup_due :: "textclust \<Rightarrow> py_error + bool" where
  "cleanup_due s =
     (case lastCleanup s of
        None \<Rightarrow> Inr True
      | Some lc \<Rightarrow>
          (case t_now s of
             None \<Rightarrow> Inl TypeError
           | Some t \<Rightarrow> Inr (t - lc \<ge> tgap s)))"

text \<open>
  \<open>learn_one(x, time, **kwargs)\<close>. \<open>kwargs_id\<close> is \<open>None\<close> when the caller passes no \<open>id\<close>
  (\<open>kwargs["id"]\<close> raises \<open>KeyError\<close>), and the value passed otherwise; a value that is
  false (\<open>None\<close>, \<open>0\<close>) becomes \<open>None\<close>. With an empty \<open>x\<close> the local variable \<open>clusterId\<close>
  is never bound, and \<open>return clusterId\<close> raises \<open>UnboundLocalError\<close> after the cleanup
  and the increment of the observation counter. \<open>var\<close> is the parameter of
  \<open>get_closest_mc\<close>.
\<close>

definition learn_one ::
  "(real \<Rightarrow> nat \<Rightarrow> real \<Rightarrow> real) \<Rightarrow> textclust \<Rightarrow> (string, real) dict \<Rightarrow> real option
    \<Rightarrow> nat option option \<Rightarrow> textclust \<times> (py_error + nat)" where
  "learn_one var s x time kwargs_id =
     (case kwargs_id of
        None \<Rightarrow> (s, Inl KeyError)
      | Some v \<Rightarrow>
          (let i = (if v = None \<or> v = Some 0 then None else v);
               ngrams = make_ngrams x i;
               s1 = s\<lparr>upToDate := False,
                      t_now := (if realtimefading s then time else Some (real (n_obs s)))\<rparr>
           in case (if length ngrams > 0
                    then (case learn_one_process var s1 ngrams i of
                            (s2, Inl e) \<Rightarrow> (s2, Inl e)
                          | (s2, Inr cid) \<Rightarrow> (s2, Inr (Some cid)))
                    else (s1, Inr None)) of
                (s2, Inl e) \<Rightarrow> (s2, Inl e)
              | (s2, Inr local_clusterId) \<Rightarrow>
                  (case cleanup_due s2 of
                     Inl e \<Rightarrow> (s2, Inl e)
                   | Inr due \<Rightarrow>
                       (case (if due then cleanup s2 else (s2, None)) of
                          (s3, Some e) \<Rightarrow> (s3, Inl e)
                        | (s3, None) \<Rightarrow>
                            (case local_clusterId of
                               None \<Rightarrow> (s3\<lparr>n_obs := n_obs s3 + 1\<rparr>, Inl UnboundLocalError)
                             | Some cid \<Rightarrow> (s3\<lparr>n_obs := n_obs s3 + 1\<rparr>, Inr cid))))))"

subsection \<open>Reclustering\<close>

text \<open>
  \<open>_get_distance_matrix(clusters)\<close>. \<open>dist_row\<close> is the inner loop over the clusters
  after \<open>row\<close>, \<open>upper_rows\<close> the outer loop; the data frame starts at zero and is
  assigned what \<open>dist\<close> returned at \<open>(row, col)\<close> and at \<open>(col, row)\<close>. The result is the
  matrix of the values assigned; what pandas makes of an entry that is no number is left
  to the parameter \<open>fit\<close> below.
\<close>

fun dist_row ::
  "string \<Rightarrow> (string, real) dict \<Rightarrow> microcluster \<Rightarrow> microcluster list
    \<Rightarrow> py_error + dist_value list" where
  "dist_row dn idf r [] = Inr []"
| "dist_row dn idf r (c # cs) =
     (case dist dn r c idf of
        Inl e \<Rightarrow> Inl e
      | Inr d \<Rightarrow> (case dist_row dn idf r cs of Inl e \<Rightarrow> Inl e | Inr ds \<Rightarrow> Inr (d # ds)))"

fun upper_rows ::
  "string \<Rightarrow> (string, real) dict \<Rightarrow> microcluster list \<Rightarrow> py_error + dist_value list list" where
  "upper_rows dn idf [] = Inr []"
| "upper_rows dn idf (r # cs) =
     (case dist_row dn idf r cs of
        Inl e \<Rightarrow> Inl e
      | Inr ds \<Rightarrow> (case upper_rows dn idf cs of Inl e \<Rightarrow> Inl e | Inr rows \<Rightarrow> Inr (ds # rows)))"

definition get_distance_matrix ::
  "textclust \<Rightarrow> (nat, microcluster) dict \<Rightarrow> py_error + dist_value list list" where
  "get_distance_matrix s clusters =
     (case upper_rows (macro_distance s) (calculateIDF (dict_values clusters)) (dict_values clusters) of
        Inl e \<Rightarrow> Inl e
      | Inr u \<Rightarrow>
          Inr (map (\<lambda>i. map (\<lambda>j. if i = j then Number 0
                                 else if i < j then u ! i ! (j - i - 1)
                                 else u ! j ! (i - j - 1))
                            [0..<length clusters])
                   [0..<length clusters]))"

text \<open>
  The dictionary comprehension \<open>{x: assigned_clusters[i] for i, x in enumerate(keys)}\<close>;
  the index raises \<open>IndexError\<close> past the end of the labels.
\<close>

fun zip_labels :: "nat list \<Rightarrow> nat list \<Rightarrow> (nat, nat) dict \<Rightarrow> py_error + (nat, nat) dict" where
  "zip_labels [] labels acc = Inr acc"
| "zip_labels (x # xs) [] acc = Inl IndexError"
| "zip_labels (x # xs) (l # labels) acc = zip_labels xs labels (AList.update x l acc)"

text \<open>
  \<open>updateMacroClusters()\<close>. The data frame is pandas' and the hierarchical clustering
  scikit-learn's: the parameter \<open>fit\<close> stands for the two libraries, from the entries
  assigned to the frame to \<open>AgglomerativeClustering(n_clusters, linkage="complete",
  affinity="precomputed").fit(distm).labels_\<close>, a list of labels or an exception.
\<close>

definition updateMacroClusters ::
  "(nat \<Rightarrow> dist_value list list \<Rightarrow> py_error + nat list) \<Rightarrow> textclust
    \<Rightarrow> textclust \<times> py_error option" where
  "updateMacroClusters fit s =
     (if \<not> upToDate s then
        (case updateweights s of
           (s1, Some e) \<Rightarrow> (s1, Some e)
         | (s1, None) \<Rightarrow>
             (let micros = filter (\<lambda>(key, v). weight v > min_weight s1) (microclusters s1);
                  numClusters = min (num_macro s1) (length micros)
              in case (if length micros > 1
                       then (case get_distance_matrix s1 micros of
                               Inl e \<Rightarrow> Inl e
                             | Inr distm \<Rightarrow> fit numClusters distm)
                       else Inr [1]) of
                   Inl e \<Rightarrow> (s1, Some e)
                 | Inr assigned_clusters \<Rightarrow>
                     (case zip_labels (keys micros) assigned_clusters [] of
                        Inl e \<Rightarrow> (s1, Some e)
                      | Inr m \<Rightarrow> (s1\<lparr>microToMacro := Some m, upToDate := True\<rparr>, None))))
      else (s, None))"

text \<open>
  The loop of \<open>get_macroclusters\<close> over \<open>self.microToMacro.items()\<close>: the live cluster
  \<open>key\<close> is merged into the macro-cluster \<open>value\<close>; \<open>merge\<close> fades the live cluster in
  place. The result is the macro-clusters, the live clusters and the exception if one
  was raised.
\<close>

fun merge_macros ::
  "real option \<times> real \<times> real \<times> bool \<times> real option \<Rightarrow> (nat, nat) dict
    \<Rightarrow> (nat, microcluster) dict \<Rightarrow> (nat, microcluster) dict
    \<Rightarrow> (nat, microcluster) dict \<times> (nat, microcluster) dict \<times> py_error option" where
  "merge_macros p [] macros mcs = (macros, mcs, None)"
| "merge_macros (t, om, lam, tfd, rt) ((key, v) # rest) macros mcs =
     (case map_of macros v of
        None \<Rightarrow> (macros, mcs, Some KeyError)
      | Some macro \<Rightarrow>
          (case map_of mcs key of
             None \<Rightarrow> (macros, mcs, Some KeyError)
           | Some micro \<Rightarrow>
               (case merge macro micro t om lam tfd rt of
                  (macro', micro', Some e) \<Rightarrow>
                    (AList.update v macro' macros, AList.update key micro' mcs, Some e)
                | (macro', micro', None) \<Rightarrow>
                    merge_macros (t, om, lam, tfd, rt) rest
                      (AList.update v macro' macros) (AList.update key micro' mcs))))"

text \<open>
  \<open>get_macroclusters()\<close>. \<open>self.microToMacro.items()\<close> raises \<open>AttributeError\<close> when the
  mapping is still \<open>None\<close>.
\<close>

definition get_macroclusters ::
  "(nat \<Rightarrow> dist_value list list \<Rightarrow> py_error + nat list) \<Rightarrow> textclust
    \<Rightarrow> textclust \<times> (py_error + (nat, microcluster) dict)" where
  "get_macroclusters fit s =
     (case updateMacroClusters fit s of
        (s1, Some e) \<Rightarrow> (s1, Inl e)
      | (s1, None) \<Rightarrow>
          (let numClusters = min (num_macro s1) (length (microclusters s1));
               macros = map (\<lambda>x. (x, new_microcluster [] (t_now s1) 0 (realtime s1) None (Some x)))
                            [0..<numClusters]
           in case microToMacro s1 of
                None \<Rightarrow> (s1, Inl AttributeError)
              | Some m \<Rightarrow>
                  (case merge_macros (t_now s1, omega s1, lambda s1, termfading s1, realtime s1)
                                     m macros (microclusters s1) of
                     (macros', mcs', Some e) \<Rightarrow> (s1\<lparr>microclusters := mcs'\<rparr>, Inl e)
                   | (macros', mcs', None) \<Rightarrow> (s1\<lparr>microclusters := mcs'\<rparr>, Inr macros'))))"

subsection \<open>\<open>predict_one\<close>\<close>

text \<open>
  The loop of \<open>get_assignment\<close> over the live micro-clusters, with the accumulators
  \<open>(dist, closest)\<close>; \<open>dist\<close> starts at \<open>float("inf")\<close>, written \<open>None\<close>. When the metric
  returned \<open>NotImplemented\<close>, \<open>cur_dist < dist\<close> raises \<open>TypeError\<close>.
\<close>

fun assignment_loop ::
  "string \<Rightarrow> real \<Rightarrow> microcluster \<Rightarrow> (string, real) dict \<Rightarrow> (nat, microcluster) dict
    \<Rightarrow> real option \<times> nat option \<Rightarrow> py_error + (real option \<times> nat option)" where
  "assignment_loop dn mw mc idf [] acc = Inr acc"
| "assignment_loop dn mw mc idf ((key, micro) # rest) (best, closest) =
     (if weight micro > mw then
        (case dist dn mc micro idf of
           Inl e \<Rightarrow> Inl e
         | Inr NotImplemented \<Rightarrow> Inl TypeError
         | Inr (Number cur_dist) \<Rightarrow>
             assignment_loop dn mw mc idf rest
               (if (case best of None \<Rightarrow> True | Some d \<Rightarrow> cur_dist < d)
                then (Some cur_dist, Some key) else (best, closest)))
      else assignment_loop dn mw mc idf rest (best, closest))"

text \<open>
  \<open>get_assignment(x, type)\<close>. It returns \<open>None\<close> for an empty \<open>x\<close> and the key of the closest
  cluster (or \<open>None\<close>) for the type \<open>micro\<close>. For every other type it evaluates
  \<open>self.get_microToMacro()[assignment]\<close>: no class of the program defines
  \<open>get_microToMacro\<close>, so the attribute lookup raises \<open>AttributeError\<close> before anything is
  called or subscripted.
\<close>

definition get_assignment ::
  "textclust \<Rightarrow> (string, tfentry) dict \<Rightarrow> string \<Rightarrow> textclust \<times> (py_error + nat option)" where
  "get_assignment s x type_name =
     (case updateweights s of
        (s1, Some e) \<Rightarrow> (s1, Inl e)
      | (s1, None) \<Rightarrow>
          (let idf = calculateIDF (dict_values (microclusters s1))
           in if length x > 0 then
                (let mc = new_microcluster x (Some 1) 1 (realtime s1) None None
                 in case assignment_loop (micro_distance s1) (min_weight s1) mc idf
                                         (microclusters s1) (None, None) of
                      Inl e \<Rightarrow> (s1, Inl e)
                    | Inr (best, closest) \<Rightarrow>
                        (if type_name = ''micro'' then (s1, Inr closest)
                         else (s1, Inl AttributeError)))
              else (s1, Inr None)))"

text \<open>\<open>predict_one(x, sample_weight, type)\<close>.\<close>

definition predict_one ::
  "textclust \<Rightarrow> (string, real) dict \<Rightarrow> string \<Rightarrow> textclust \<times> (py_error + nat option)" where
  "predict_one s x type_name = get_assignment s (make_ngrams x None) type_name"

subsection \<open>Fading\<close>

lemma fade_weight:
  "fade self (Some t2) om lam tfd rt = Inr self' \<Longrightarrow> mc_time self = Some t1
    \<Longrightarrow> weight self' = weight self * 2 powr (- lam * (t2 - t1))"
  by (auto simp: fade_def)

text \<open>
  C8 (as amended). Fading a cluster last updated at \<open>t1\<close> to the time \<open>t2\<close> always
  succeeds and multiplies the weight by \<open>2 powr (- lambda * (t2 - t1))\<close>. For a
  non-negative weight, a non-negative decay rate and \<open>t1 < t2\<close> the faded weight is at
  most the weight; it is strictly smaller when the decay rate and the weight are
  positive.
\<close>

theorem fade_monotone:
  assumes "mc_time self = Some t1" and "t1 < t2" and "0 \<le> weight self" and "0 \<le> lam"
  shows "\<exists>self'. fade self (Some t2) om lam tfd rt = Inr self'
           \<and> weight self' = weight self * 2 powr (- lam * (t2 - t1))
           \<and> weight self' \<le> weight self
           \<and> (0 < lam \<and> 0 < weight self \<longrightarrow> weight self' < weight self)"
proof -
  let ?f = "2 powr (- lam * (t2 - t1))"
  have lt: "?f < 1" if "0 < lam"
    using that assms(2) by (simp add: powr_less_one)
  have le: "?f \<le> 1"
  proof (cases "lam = 0")
    case True
    then show ?thesis by simp
  next
    case False
    with assms(4) have "0 < lam" by simp
    then show ?thesis using lt by simp
  qed
  have a: "weight self * ?f \<le> weight self"
    using mult_left_le [OF le assms(3)] by simp
  have b: "weight self * ?f < weight self" if "0 < lam" "0 < weight self"
    using lt [OF that(1)] that(2) by simp
  show ?thesis
    using a b assms(1) by (simp add: fade_def)
qed


theorem fade_monotone_witness:
  "mc_time (new_microcluster [] (Some 0) 4 None None None) = Some 0 \<and> (0::real) < 1
   \<and> 0 \<le> weight (new_microcluster [] (Some 0) 4 None None None) \<and> (0::real) \<le> 1
   \<and> (\<exists>self'. fade (new_microcluster [] (Some 0) 4 None None None) (Some 1) (1 / 2) 1 True None
                  = Inr self'
          \<and> weight self' = 2 \<and> weight self' < 4)"
proof -
  let ?m = "new_microcluster [] (Some 0) 4 None None None"
  have h1: "mc_time ?m = Some 0" and h3: "0 \<le> weight ?m" and w: "weight ?m = 4"
    by (simp_all add: new_microcluster_def)
  have p: "(2::real) powr (- 1) = 1 / 2"
    by (simp add: powr_minus)
  from fade_monotone [OF h1 _ h3, of 1 1 "1 / 2" True None]
  show ?thesis
    using h1 h3 w p by auto
qed

text \<open>
  The claim as stated fails at the weight 0, which is not made strictly smaller by a
  positive decay rate, and at a negative decay rate, which makes a weight larger.
\<close>

theorem fade_monotone_counterexample:
  "map_sum id weight
     (fade (new_microcluster [] (Some 0) 0 None None None) (Some 1) (1 / 2) 1 True None) = Inr 0
   \<and> weight (new_microcluster [] (Some 0) 0 None None None) = 0
   \<and> map_sum id weight
     (fade (new_microcluster [] (Some 0) 1 None None None) (Some 1) (1 / 2) (- 1) True None) = Inr 2
   \<and> weight (new_microcluster [] (Some 0) 1 None None None) = 1"
  by (simp add: fade_def new_microcluster_def)

subsection \<open>Merging\<close>


text \<open>
  C1. \<open>merge\<close> adds the weight of the source to the weight of the target before it
  fades the target, so the sum is faded over the time since the target's last update,
  and the faded weight of the source is never read. Here a cluster of weight 1 updated
  at time 0 takes in a cluster of weight 1 updated at time 1, at time 1 and decay rate
  1: the weight is 1, where each weight faded to time 1 gives \<open>1 / 2 + 1\<close>. The term
  frequencies are faded first and added afterwards: the merged frequency is \<open>3 / 2\<close>.
\<close>

theorem merge_weight_failing_input:
  "weight (fst (merge (new_microcluster [(''a'', \<lparr>tfvalue = 1, ids = [Some 1]\<rparr>)] (Some 0) 1 None (Some 1) (Some 0))
                      (new_microcluster [(''a'', \<lparr>tfvalue = 1, ids = [Some 2]\<rparr>)] (Some 1) 1 None (Some 2) (Some 1))
                      (Some 1) (1 / 4) 1 True None)) = 1
   \<and> 1 * 2 powr (- 1 * (1 - 0)) + 1 * 2 powr (- 1 * (1 - 1)) = (3 / 2 :: real)
   \<and> map (\<lambda>(k, e). (k, tfvalue e))
        (tf (fst (merge (new_microcluster [(''a'', \<lparr>tfvalue = 1, ids = [Some 1]\<rparr>)] (Some 0) 1 None (Some 1) (Some 0))
                        (new_microcluster [(''a'', \<lparr>tfvalue = 1, ids = [Some 2]\<rparr>)] (Some 1) 1 None (Some 2) (Some 1))
                        (Some 1) (1 / 4) 1 True None))) = [(''a'', 3 / 2)]"
  by (simp add: merge_def fade_def new_microcluster_def powr_minus)

subsection \<open>The IDF table\<close>

lemma count_keys_map_of:
  "distinct ks \<Longrightarrow> map_of (count_keys ks r) k =
     (if k \<in> set ks then Some (case map_of r k of None \<Rightarrow> 1 | Some c \<Rightarrow> c + 1) else map_of r k)"
proof (induction ks arbitrary: r)
  case Nil
  then show ?case by simp
next
  case (Cons a ks)
  then show ?case
    by (auto simp: update_conv' split: option.splits)
qed

lemma count_keys_distinct: "distinct (map fst r) \<Longrightarrow> distinct (map fst (count_keys ks r))"
  by (induction ks arbitrary: r) (auto simp: distinct_update split: option.splits)

lemma count_df_distinct: "distinct (map fst r) \<Longrightarrow> distinct (map fst (count_df mcs r))"
  by (induction mcs arbitrary: r) (auto simp: count_keys_distinct)

text \<open>
  A document frequency counts each micro-cluster at most once, because the terms of one
  micro-cluster are the keys of a dictionary.
\<close>

lemma count_keys_bounded:
  assumes "distinct ks" and "\<And>k c. map_of r k = Some c \<Longrightarrow> 1 \<le> c \<and> c \<le> j"
    and "map_of (count_keys ks r) k = Some c"
  shows "1 \<le> c \<and> c \<le> Suc j"
proof (cases "k \<in> set ks")
  case True
  with assms(1,3) have c: "c = (case map_of r k of None \<Rightarrow> 1 | Some c' \<Rightarrow> c' + 1)"
    by (simp add: count_keys_map_of)
  show ?thesis
  proof (cases "map_of r k")
    case None
    with c show ?thesis by simp
  next
    case (Some c')
    with c assms(2) [OF Some] show ?thesis by simp
  qed
next
  case False
  with assms(1,3) have "map_of r k = Some c"
    by (simp add: count_keys_map_of)
  from assms(2) [OF this] show ?thesis by simp
qed

lemma count_df_bounded:
  assumes "\<forall>m \<in> set mcs. is_dict (tf m)" and "\<And>k c. map_of r k = Some c \<Longrightarrow> 1 \<le> c \<and> c \<le> j"
    and "map_of (count_df mcs r) k = Some c"
  shows "1 \<le> c \<and> c \<le> j + length mcs"
  using assms
proof (induction mcs arbitrary: j r)
  case Nil
  then show ?case by simp
next
  case (Cons m mcs)
  have d: "distinct (keys (tf m))"
    using Cons.prems(1) by (simp add: is_dict_def keys_def)
  have "1 \<le> c \<and> c \<le> Suc j + length mcs"
  proof (rule Cons.IH)
    show "\<forall>m \<in> set mcs. is_dict (tf m)"
      using Cons.prems(1) by simp
    show "1 \<le> c' \<and> c' \<le> Suc j" if "map_of (count_keys (keys (tf m)) r) k' = Some c'" for k' c'
      using count_keys_bounded [OF d Cons.prems(2) that] .
    show "map_of (count_df mcs (count_keys (keys (tf m)) r)) k = Some c"
      using Cons.prems(3) by simp
  qed
  then show ?case by simp
qed

text \<open>
  C10. Every value of the IDF table computed over a list of micro-clusters (each with a
  dictionary of terms) is at least 1, so multiplying a term frequency by it keeps the sign
  of the frequency and keeps a non-zero frequency non-zero.
\<close>

theorem calculateIDF_ge_one:
  assumes "\<forall>m \<in> set mcs. is_dict (tf m)" and "(k, v) \<in> set (calculateIDF mcs)"
  shows "1 \<le> v \<and> sgn (x * v) = sgn x"
proof -
  from assms(2) obtain c where c: "(k, c) \<in> set (count_df mcs [])"
    and v: "v = 1 + ln (real (length mcs) / real c)"
    by (auto simp: calculateIDF_def)
  have "distinct (map fst (count_df mcs []))"
    by (rule count_df_distinct) simp
  with c have "map_of (count_df mcs []) k = Some c" by simp
  from count_df_bounded [OF assms(1) _ this, of 0]
  have b: "1 \<le> c" "c \<le> length mcs"
    by simp_all
  then have "1 \<le> real (length mcs) / real c"
    by (simp add: le_divide_eq)
  then have "0 \<le> ln (real (length mcs) / real c)"
    by simp
  with v have "1 \<le> v" by simp
  then show ?thesis
    by (simp add: sgn_mult)
qed

theorem calculateIDF_ge_one_witness:
  "is_dict (tf (new_microcluster [(''a'', \<lparr>tfvalue = 1, ids = [None]\<rparr>), (''b'', \<lparr>tfvalue = 2, ids = [None]\<rparr>)]
                  (Some 1) 1 None None (Some 0)))
   \<and> is_dict (tf (new_microcluster [(''a'', \<lparr>tfvalue = 1, ids = [None]\<rparr>)] (Some 2) 1 None None (Some 1)))
   \<and> calculateIDF
        [new_microcluster [(''a'', \<lparr>tfvalue = 1, ids = [None]\<rparr>), (''b'', \<lparr>tfvalue = 2, ids = [None]\<rparr>)]
           (Some 1) 1 None None (Some 0),
         new_microcluster [(''a'', \<lparr>tfvalue = 1, ids = [None]\<rparr>)] (Some 2) 1 None None (Some 1)]
       = [(''a'', 1), (''b'', 1 + ln 2)]
   \<and> 1 \<le> 1 + ln (2 :: real) \<and> sgn (- 3 * (1 + ln 2)) = sgn (- 3 :: real)"
proof -
  let ?m1 = "new_microcluster [(''a'', \<lparr>tfvalue = 1, ids = [None]\<rparr>), (''b'', \<lparr>tfvalue = 2, ids = [None]\<rparr>)]
               (Some 1) 1 None None (Some 0)"
  let ?m2 = "new_microcluster [(''a'', \<lparr>tfvalue = 1, ids = [None]\<rparr>)] (Some 2) 1 None None (Some 1)"
  have d: "is_dict (tf ?m1)" "is_dict (tf ?m2)"
    by (simp_all add: is_dict_def new_microcluster_def)
  then have h: "\<forall>m \<in> set [?m1, ?m2]. is_dict (tf m)"
    by simp
  have e: "calculateIDF [?m1, ?m2] = [(''a'', 1), (''b'', 1 + ln 2)]"
    by (simp add: calculateIDF_def new_microcluster_def keys_def)
  then have m: "(''b'', 1 + ln 2) \<in> set (calculateIDF [?m1, ?m2])"
    by simp
  from calculateIDF_ge_one [OF h m, of "- 3"] d e
  show ?thesis by simp
qed

subsection \<open>The distance\<close>

lemma two_mult_le_sum:
  fixes u v w :: real
  assumes "0 \<le> u" "0 \<le> v" "w\<^sup>2 \<le> u * v"
  shows "2 * w \<le> u + v"
proof (rule power2_le_imp_le)
  have "(2 * w)\<^sup>2 = 4 * w\<^sup>2" by (simp add: power2_eq_square)
  also have "\<dots> \<le> 4 * (u * v)" using assms(3) by simp
  also have "\<dots> \<le> (u + v)\<^sup>2"
  proof -
    have "0 \<le> (u - v)\<^sup>2" by simp
    then show ?thesis by (simp add: power2_eq_square algebra_simps)
  qed
  finally show "(2 * w)\<^sup>2 \<le> (u + v)\<^sup>2" .
  show "0 \<le> u + v" using assms by simp
qed

lemma cauchy_schwarz_sum:
  fixes f g :: "'a \<Rightarrow> real"
  assumes "finite K"
  shows "(\<Sum>k\<in>K. f k * g k)\<^sup>2 \<le> (\<Sum>k\<in>K. (f k)\<^sup>2) * (\<Sum>k\<in>K. (g k)\<^sup>2)"
  using assms
proof (induction K rule: finite_induct)
  case empty
  then show ?case by simp
next
  case (insert a K)
  let ?S = "\<Sum>k\<in>K. f k * g k" and ?A = "\<Sum>k\<in>K. (f k)\<^sup>2" and ?B = "\<Sum>k\<in>K. (g k)\<^sup>2"
  have A: "0 \<le> ?A" and B: "0 \<le> ?B" by (simp_all add: sum_nonneg)
  have "(f a * g a * ?S)\<^sup>2 = ((f a)\<^sup>2 * (g a)\<^sup>2) * ?S\<^sup>2"
    by (simp add: power_mult_distrib)
  also have "\<dots> \<le> ((f a)\<^sup>2 * (g a)\<^sup>2) * (?A * ?B)"
    by (rule mult_left_mono [OF insert.IH]) simp
  also have "\<dots> = ((f a)\<^sup>2 * ?B) * ((g a)\<^sup>2 * ?A)"
    by (simp add: mult_ac)
  finally have "2 * (f a * g a * ?S) \<le> (f a)\<^sup>2 * ?B + (g a)\<^sup>2 * ?A"
    using A B by (intro two_mult_le_sum) simp_all
  with insert.IH
  have "(f a * g a + ?S)\<^sup>2 \<le> ((f a)\<^sup>2 + ?A) * ((g a)\<^sup>2 + ?B)"
    by (simp add: power2_eq_square algebra_simps)
  with insert.hyps show ?case by simp
qed

lemma cosine_loop1_sum_list:
  "cosine_loop1 ta tb idf (s, l) =
     (s + sum_list (map (\<lambda>(k, e). case map_of idf k of None \<Rightarrow> 0
                          | Some w \<Rightarrow> (case map_of tb k of None \<Rightarrow> 0
                                       | Some e' \<Rightarrow> (tfvalue e * w) * (tfvalue e' * w))) ta),
      l + sum_list (map (\<lambda>(k, e). case map_of idf k of None \<Rightarrow> 0
                          | Some w \<Rightarrow> (tfvalue e * w)\<^sup>2) ta))"
  by (induction ta arbitrary: s l)
     (auto simp: power2_eq_square algebra_simps split: option.splits)

lemma cosine_loop2_sum_list:
  "fst ` set tb \<subseteq> fst ` set idf \<Longrightarrow>
   cosine_loop2 tb idf l =
     Inr (l + sum_list (map (\<lambda>(k, e). case map_of idf k of None \<Rightarrow> 0
                               | Some w \<Rightarrow> (tfvalue e * w)\<^sup>2) tb))"
proof (induction tb arbitrary: l)
  case Nil
  then show ?case by simp
next
  case (Cons p tb)
  obtain k e where p: "p = (k, e)" by (cases p)
  from Cons.prems p have "k \<in> fst ` set idf" by simp
  then obtain w where w: "map_of idf k = Some w"
    by (metis map_of_eq_None_iff not_Some_eq)
  from Cons.prems have "fst ` set tb \<subseteq> fst ` set idf" by simp
  from Cons.IH [OF this] p w show ?case
    by (simp add: power2_eq_square algebra_simps)
qed

lemma cosine_loop2_KeyError:
  "\<not> fst ` set tb \<subseteq> fst ` set idf \<Longrightarrow> cosine_loop2 tb idf l = Inl KeyError"
proof (induction tb arbitrary: l)
  case Nil
  then show ?case by simp
next
  case (Cons p tb)
  obtain k e where p: "p = (k, e)" by (cases p)
  show ?case
  proof (cases "map_of idf k")
    case None
    with p show ?thesis by simp
  next
    case (Some w)
    then have "k \<in> fst ` set idf"
      by (metis map_of_eq_None_iff option.distinct(1))
    with Cons.prems p have "\<not> fst ` set tb \<subseteq> fst ` set idf" by simp
    from Cons.IH [OF this] p Some show ?thesis by simp
  qed
qed

lemma sum_entries_keys:
  fixes F :: "'k \<Rightarrow> 'v \<Rightarrow> real"
  shows "distinct (map fst d) \<Longrightarrow>
    sum_list (map (\<lambda>(k, e). F k e) d) =
      (\<Sum>k \<in> set (map fst d). case map_of d k of None \<Rightarrow> 0 | Some e \<Rightarrow> F k e)"
proof (induction d)
  case Nil
  then show ?case by simp
next
  case (Cons p d)
  obtain k e where p: "p = (k, e)" by (cases p)
  from Cons.prems p have nk: "k \<notin> fst ` set d" and dd: "distinct (map fst d)"
    by simp_all
  have "(\<Sum>k' \<in> set (map fst d). case map_of ((k, e) # d) k' of None \<Rightarrow> 0 | Some e \<Rightarrow> F k' e)
      = (\<Sum>k' \<in> set (map fst d). case map_of d k' of None \<Rightarrow> 0 | Some e \<Rightarrow> F k' e)"
    using nk by (intro sum.cong) auto
  with Cons.IH [OF dd] nk p show ?case by simp
qed

lemma spec_tfidf_absent: "k \<notin> set (keys (tf c)) \<Longrightarrow> spec_tfidf c idf k = 0"
  by (simp add: spec_tfidf_def keys_def map_of_eq_None_iff [THEN iffD2])

lemma cosine_loop1_spec:
  assumes "is_dict (tf a)"
  shows "cosine_loop1 (tf a) (tf b) idf (0, 0) =
           (spec_dot a b idf, \<Sum>k \<in> set (keys (tf a)). (spec_tfidf a idf k)\<^sup>2)"
proof -
  have d: "distinct (map fst (tf a))"
    using assms by (simp add: is_dict_def)
  have "sum_list (map (\<lambda>(k, e). case map_of idf k of None \<Rightarrow> 0
                          | Some w \<Rightarrow> (case map_of (tf b) k of None \<Rightarrow> 0
                                       | Some e' \<Rightarrow> (tfvalue e * w) * (tfvalue e' * w))) (tf a))
        = (\<Sum>k \<in> set (keys (tf a)). spec_tfidf a idf k * spec_tfidf b idf k)"
    unfolding sum_entries_keys [OF d] keys_def
    by (intro sum.cong) (auto simp: spec_tfidf_def split: option.splits)
  also have "\<dots> = spec_dot a b idf"
    unfolding spec_dot_def
    by (intro sum.mono_neutral_left) (auto simp: spec_tfidf_absent)
  finally have 1: "sum_list (map (\<lambda>(k, e). case map_of idf k of None \<Rightarrow> 0
                          | Some w \<Rightarrow> (case map_of (tf b) k of None \<Rightarrow> 0
                                       | Some e' \<Rightarrow> (tfvalue e * w) * (tfvalue e' * w))) (tf a))
        = spec_dot a b idf" .
  have 2: "sum_list (map (\<lambda>(k, e). case map_of idf k of None \<Rightarrow> 0
                          | Some w \<Rightarrow> (tfvalue e * w)\<^sup>2) (tf a))
        = (\<Sum>k \<in> set (keys (tf a)). (spec_tfidf a idf k)\<^sup>2)"
    unfolding sum_entries_keys [OF d] keys_def
    by (intro sum.cong) (auto simp: spec_tfidf_def split: option.splits)
  show ?thesis
    unfolding cosine_loop1_sum_list 1 2 by simp
qed

lemma cosine_loop2_spec:
  assumes "is_dict (tf b)" and "set (keys (tf b)) \<subseteq> set (keys idf)"
  shows "cosine_loop2 (tf b) idf 0 = Inr (\<Sum>k \<in> set (keys (tf b)). (spec_tfidf b idf k)\<^sup>2)"
proof -
  have d: "distinct (map fst (tf b))"
    using assms(1) by (simp add: is_dict_def)
  have s: "fst ` set (tf b) \<subseteq> fst ` set idf"
    using assms(2) by (simp add: keys_def)
  have 2: "sum_list (map (\<lambda>(k, e). case map_of idf k of None \<Rightarrow> 0
                          | Some w \<Rightarrow> (tfvalue e * w)\<^sup>2) (tf b))
        = (\<Sum>k \<in> set (keys (tf b)). (spec_tfidf b idf k)\<^sup>2)"
    unfolding sum_entries_keys [OF d] keys_def
    by (intro sum.cong) (auto simp: spec_tfidf_def split: option.splits)
  show ?thesis
    unfolding cosine_loop2_sum_list [OF s] 2 by simp
qed

lemma tfidf_cosine_distance_spec:
  assumes "is_dict (tf a)" and "is_dict (tf b)" and "set (keys (tf b)) \<subseteq> set (keys idf)"
  shows "tfidf_cosine_distance a b idf =
           Inr (if spec_norm a idf = 0 \<or> spec_norm b idf = 0 then 1
                else py_round (1 - spec_cosine_similarity a b idf) 10)"
  unfolding tfidf_cosine_distance_def cosine_loop1_spec [OF assms(1)]
    cosine_loop2_spec [OF assms(2,3)]
  by (simp add: spec_norm_def spec_cosine_similarity_def)

lemma round_half_even_bounds:
  assumes "of_int m \<le> x" and "x \<le> of_int n"
  shows "m \<le> round_half_even x \<and> round_half_even x \<le> n"
proof -
  have lo: "m \<le> \<lfloor>x\<rfloor>" using assms(1) by (simp add: le_floor_iff)
  show ?thesis
  proof (cases "x = of_int n")
    case True
    then show ?thesis using lo by (simp add: round_half_even_def)
  next
    case False
    with assms(2) have "x < of_int n" by simp
    then have "\<lfloor>x\<rfloor> < n" by (simp add: floor_less_iff)
    then show ?thesis using lo by (auto simp: round_half_even_def)
  qed
qed

lemma py_round_unit_interval:
  assumes "0 \<le> x" and "x \<le> 1"
  shows "0 \<le> py_round x 10 \<and> py_round x 10 \<le> 1"
proof -
  have "of_int 0 \<le> x * 10 ^ 10" using assms(1) by simp
  moreover have "x * 10 ^ 10 \<le> of_int (10 ^ 10)" using assms(2) by simp
  ultimately have "0 \<le> round_half_even (x * 10 ^ 10) \<and> round_half_even (x * 10 ^ 10) \<le> 10 ^ 10"
    by (rule round_half_even_bounds)
  then have "0 \<le> (of_int (round_half_even (x * 10 ^ 10)) :: real)"
    and "(of_int (round_half_even (x * 10 ^ 10)) :: real) \<le> of_int (10 ^ 10)"
    by (simp_all only: of_int_le_iff of_int_0_le_iff)
  then show ?thesis
    by (simp add: py_round_def divide_le_eq)
qed

lemma py_round_zero: "py_round 0 n = 0"
  by (simp add: py_round_def round_half_even_def)

lemma spec_norm_sq_union:
  "(\<Sum>k \<in> set (keys (tf a)) \<union> S. (spec_tfidf a idf k)\<^sup>2) = (\<Sum>k \<in> set (keys (tf a)). (spec_tfidf a idf k)\<^sup>2)"
  if "finite S"
  using that by (intro sum.mono_neutral_right) (auto simp: spec_tfidf_absent)

lemma spec_dot_commute: "spec_dot a b idf = spec_dot b a idf"
  by (simp add: spec_dot_def Un_commute mult.commute)

lemma spec_norm_nonneg: "0 \<le> spec_norm c idf"
  by (simp add: spec_norm_def sum_nonneg)

lemma spec_dot_le_norms: "spec_dot a b idf \<le> spec_norm a idf * spec_norm b idf"
proof -
  let ?K = "set (keys (tf a)) \<union> set (keys (tf b))"
  have "(spec_dot a b idf)\<^sup>2
      \<le> (\<Sum>k \<in> ?K. (spec_tfidf a idf k)\<^sup>2) * (\<Sum>k \<in> ?K. (spec_tfidf b idf k)\<^sup>2)"
    unfolding spec_dot_def by (rule cauchy_schwarz_sum) simp
  also have "(\<Sum>k \<in> ?K. (spec_tfidf a idf k)\<^sup>2) = (\<Sum>k \<in> set (keys (tf a)). (spec_tfidf a idf k)\<^sup>2)"
    by (rule spec_norm_sq_union) simp
  also have "(\<Sum>k \<in> ?K. (spec_tfidf b idf k)\<^sup>2) = (\<Sum>k \<in> set (keys (tf b)). (spec_tfidf b idf k)\<^sup>2)"
    using spec_norm_sq_union [of "set (keys (tf a))" b idf] by (simp add: Un_commute)
  finally have "spec_dot a b idf
      \<le> sqrt ((\<Sum>k \<in> set (keys (tf a)). (spec_tfidf a idf k)\<^sup>2)
              * (\<Sum>k \<in> set (keys (tf b)). (spec_tfidf b idf k)\<^sup>2))"
    by (rule real_le_rsqrt)
  then show ?thesis
    by (simp add: spec_norm_def real_sqrt_mult)
qed

lemma spec_dot_nonneg:
  assumes "\<forall>(k, e) \<in> set (tf a). 0 \<le> tfvalue e" and "\<forall>(k, e) \<in> set (tf b). 0 \<le> tfvalue e"
  shows "0 \<le> spec_dot a b idf"
  unfolding spec_dot_def
proof (rule sum_nonneg)
  fix k
  have "0 \<le> tfvalue e * w * (tfvalue e' * w)"
    if "map_of (tf a) k = Some e" "map_of (tf b) k = Some e'" for e e' and w :: real
  proof -
    have "0 \<le> tfvalue e" "0 \<le> tfvalue e'"
      using assms map_of_SomeD [OF that(1)] map_of_SomeD [OF that(2)] by auto
    then have "0 \<le> (tfvalue e * tfvalue e') * (w * w)"
      by (intro mult_nonneg_nonneg zero_le_square)
    then show ?thesis by (simp add: mult_ac)
  qed
  then show "0 \<le> spec_tfidf a idf k * spec_tfidf b idf k"
    by (auto simp: spec_tfidf_def split: option.splits)
qed

lemma spec_cosine_similarity_self:
  assumes "spec_norm a idf \<noteq> 0" and "tf b = tf a"
  shows "spec_cosine_similarity a b idf = 1"
proof -
  have e: "spec_tfidf b idf = spec_tfidf a idf"
    using assms(2) by (simp add: spec_tfidf_def fun_eq_iff)
  have "spec_dot a b idf = (\<Sum>k \<in> set (keys (tf a)). (spec_tfidf a idf k)\<^sup>2)"
    by (simp add: spec_dot_def assms(2) e power2_eq_square)
  also have "\<dots> = spec_norm a idf * spec_norm a idf"
    by (simp add: spec_norm_def sum_nonneg)
  finally have "spec_dot a b idf = spec_norm a idf * spec_norm a idf" .
  moreover have "spec_norm b idf = spec_norm a idf"
    by (simp add: spec_norm_def assms(2) e)
  ultimately show ?thesis
    using assms(1) by (simp add: spec_cosine_similarity_def)
qed

lemma spec_norm_nonzero:
  assumes "is_dict (tf a)" and "(k, e) \<in> set (tf a)" and "tfvalue e \<noteq> 0"
    and "map_of idf k = Some w" and "w \<noteq> 0"
  shows "spec_norm a idf \<noteq> 0"
proof -
  have "map_of (tf a) k = Some e"
    using assms(1,2) by (simp add: is_dict_def)
  then have v: "spec_tfidf a idf k \<noteq> 0"
    using assms(3-5) by (simp add: spec_tfidf_def)
  have k: "k \<in> set (keys (tf a))"
    using assms(2) by (force simp: keys_def)
  have "(\<Sum>k \<in> set (keys (tf a)). (spec_tfidf a idf k)\<^sup>2) \<noteq> 0"
  proof
    assume "(\<Sum>k \<in> set (keys (tf a)). (spec_tfidf a idf k)\<^sup>2) = 0"
    then have "\<forall>k \<in> set (keys (tf a)). (spec_tfidf a idf k)\<^sup>2 = 0"
      by (subst (asm) sum_nonneg_eq_0_iff) simp_all
    with k v show False by simp
  qed
  then show ?thesis by (simp add: spec_norm_def)
qed

lemma tfidf_cosine_distance_KeyError:
  "\<not> set (keys (tf b)) \<subseteq> set (keys idf) \<Longrightarrow> tfidf_cosine_distance a b idf = Inl KeyError"
  by (simp add: tfidf_cosine_distance_def keys_def cosine_loop2_KeyError split: prod.splits)

text \<open>
  C3 (as amended). For two micro-clusters whose term maps are dictionaries and an IDF
  table that has every term of the second one, the distance is defined; it is exactly 1
  when the tf-idf norm of either is 0 and otherwise 1 minus the cosine similarity,
  rounded to 10 decimal digits; it lies in \<open>[0, 1]\<close> when no term frequency is negative;
  it is the same in the other order when the table has every term of the first cluster
  too; and the distance of a cluster to a cluster with the same term map is 0 when some
  term frequency is non-zero and no IDF weight is 0.
\<close>

theorem tfidf_cosine_distance_properties:
  assumes "is_dict (tf a)" and "is_dict (tf b)" and "set (keys (tf b)) \<subseteq> set (keys idf)"
  shows "\<exists>d. tfidf_cosine_distance a b idf = Inr d
           \<and> (spec_norm a idf = 0 \<or> spec_norm b idf = 0 \<longrightarrow> d = 1)
           \<and> (spec_norm a idf \<noteq> 0 \<and> spec_norm b idf \<noteq> 0
                \<longrightarrow> d = py_round (1 - spec_cosine_similarity a b idf) 10)
           \<and> ((\<forall>(k, e) \<in> set (tf a). 0 \<le> tfvalue e) \<and> (\<forall>(k, e) \<in> set (tf b). 0 \<le> tfvalue e)
                \<longrightarrow> 0 \<le> d \<and> d \<le> 1)
           \<and> (set (keys (tf a)) \<subseteq> set (keys idf) \<longrightarrow> tfidf_cosine_distance b a idf = Inr d)
           \<and> (tf b = tf a \<and> (\<exists>(k, e) \<in> set (tf a). tfvalue e \<noteq> 0) \<and> (\<forall>(k, w) \<in> set idf. w \<noteq> 0)
                \<longrightarrow> d = 0)"
proof -
  let ?d = "if spec_norm a idf = 0 \<or> spec_norm b idf = 0 then 1
            else py_round (1 - spec_cosine_similarity a b idf) 10"
  have d: "tfidf_cosine_distance a b idf = Inr ?d"
    by (rule tfidf_cosine_distance_spec [OF assms])
  have bounds: "0 \<le> ?d \<and> ?d \<le> 1"
    if nn: "\<forall>(k, e) \<in> set (tf a). 0 \<le> tfvalue e" "\<forall>(k, e) \<in> set (tf b). 0 \<le> tfvalue e"
  proof (cases "spec_norm a idf = 0 \<or> spec_norm b idf = 0")
    case True
    then show ?thesis by simp
  next
    case False
    then have pos: "0 < spec_norm a idf * spec_norm b idf"
      using spec_norm_nonneg [of a idf] spec_norm_nonneg [of b idf] by simp
    have "0 \<le> spec_cosine_similarity a b idf"
      using spec_dot_nonneg [OF nn, of idf] pos by (simp add: spec_cosine_similarity_def)
    moreover have "spec_cosine_similarity a b idf \<le> 1"
      using spec_dot_le_norms [of a b idf] pos by (simp add: spec_cosine_similarity_def)
    ultimately have "0 \<le> 1 - spec_cosine_similarity a b idf" "1 - spec_cosine_similarity a b idf \<le> 1"
      by simp_all
    from py_round_unit_interval [OF this] False show ?thesis by simp
  qed
  have sym: "tfidf_cosine_distance b a idf = Inr ?d" if "set (keys (tf a)) \<subseteq> set (keys idf)"
  proof -
    have "spec_cosine_similarity b a idf = spec_cosine_similarity a b idf"
      by (simp add: spec_cosine_similarity_def spec_dot_commute [of b a] mult.commute)
    then show ?thesis
      unfolding tfidf_cosine_distance_spec [OF assms(2,1) that] by auto
  qed
  have self: "?d = 0"
    if "tf b = tf a" "\<exists>(k, e) \<in> set (tf a). tfvalue e \<noteq> 0" "\<forall>(k, w) \<in> set idf. w \<noteq> 0"
  proof -
    from that(2) obtain k e where ke: "(k, e) \<in> set (tf a)" "tfvalue e \<noteq> 0" by auto
    then have "k \<in> set (keys idf)"
      using assms(3) that(1) by (force simp: keys_def)
    then obtain w where w: "map_of idf k = Some w"
      by (metis keys_def list.set_map map_of_eq_None_iff not_Some_eq)
    with that(3) have "w \<noteq> 0"
      using map_of_SomeD by fastforce
    from spec_norm_nonzero [OF assms(1) ke w this] have na: "spec_norm a idf \<noteq> 0" .
    moreover have "spec_norm b idf = spec_norm a idf"
      using that(1) by (simp add: spec_norm_def spec_tfidf_def)
    ultimately show ?thesis
      using spec_cosine_similarity_self [OF na that(1)] by (simp add: py_round_zero)
  qed
  show ?thesis
    using d bounds sym self by (intro exI [of _ ?d]) auto
qed

lemma sqrt_25: "sqrt 25 = 5"
  by (rule real_sqrt_unique) simp_all

theorem tfidf_cosine_distance_properties_witness:
  "is_dict (tf (new_microcluster [(''x'', \<lparr>tfvalue = 3, ids = [None]\<rparr>), (''y'', \<lparr>tfvalue = 4, ids = [None]\<rparr>)]
                  (Some 1) 1 None None None))
   \<and> is_dict (tf (new_microcluster [(''x'', \<lparr>tfvalue = 1, ids = [None]\<rparr>)] (Some 1) 1 None None (Some 0)))
   \<and> set (keys (tf (new_microcluster [(''x'', \<lparr>tfvalue = 1, ids = [None]\<rparr>)] (Some 1) 1 None None (Some 0))))
        \<subseteq> set (keys [(''x'', 1 :: real), (''y'', 1)])
   \<and> tfidf_cosine_distance
        (new_microcluster [(''x'', \<lparr>tfvalue = 3, ids = [None]\<rparr>), (''y'', \<lparr>tfvalue = 4, ids = [None]\<rparr>)]
           (Some 1) 1 None None None)
        (new_microcluster [(''x'', \<lparr>tfvalue = 1, ids = [None]\<rparr>)] (Some 1) 1 None None (Some 0))
        [(''x'', 1), (''y'', 1)] = Inr (2 / 5)
   \<and> tfidf_cosine_distance
        (new_microcluster [(''x'', \<lparr>tfvalue = 1, ids = [None]\<rparr>)] (Some 1) 1 None None (Some 0))
        (new_microcluster [(''x'', \<lparr>tfvalue = 3, ids = [None]\<rparr>), (''y'', \<lparr>tfvalue = 4, ids = [None]\<rparr>)]
           (Some 1) 1 None None None)
        [(''x'', 1), (''y'', 1)] = Inr (2 / 5)
   \<and> tfidf_cosine_distance
        (new_microcluster [(''x'', \<lparr>tfvalue = 1, ids = [None]\<rparr>)] (Some 1) 1 None None (Some 0))
        (new_microcluster [(''x'', \<lparr>tfvalue = 1, ids = [None]\<rparr>)] (Some 1) 1 None None (Some 0))
        [(''x'', 1), (''y'', 1)] = Inr 0
   \<and> tfidf_cosine_distance
        (new_microcluster [] (Some 1) 1 None None None)
        (new_microcluster [(''x'', \<lparr>tfvalue = 1, ids = [None]\<rparr>)] (Some 1) 1 None None (Some 0))
        [(''x'', 1), (''y'', 1)] = Inr 1"
proof -
  let ?a = "new_microcluster [(''x'', \<lparr>tfvalue = 3, ids = [None]\<rparr>), (''y'', \<lparr>tfvalue = 4, ids = [None]\<rparr>)]
              (Some 1) 1 None None None"
  let ?b = "new_microcluster [(''x'', \<lparr>tfvalue = 1, ids = [None]\<rparr>)] (Some 1) 1 None None (Some 0)"
  let ?z = "new_microcluster [] (Some 1) 1 None None None"
  let ?idf = "[(''x'', 1 :: real), (''y'', 1)]"
  have da: "is_dict (tf ?a)" and db: "is_dict (tf ?b)" and dz: "is_dict (tf ?z)"
    by (simp_all add: is_dict_def new_microcluster_def)
  have cb: "set (keys (tf ?b)) \<subseteq> set (keys ?idf)" and ca: "set (keys (tf ?a)) \<subseteq> set (keys ?idf)"
    by (simp_all add: keys_def new_microcluster_def)
  have ab: "tfidf_cosine_distance ?a ?b ?idf = Inr (2 / 5)"
    by (simp add: tfidf_cosine_distance_def new_microcluster_def sqrt_25 py_round_def
        round_half_even_def)
  from tfidf_cosine_distance_properties [OF da db cb] ab ca
  have ba: "tfidf_cosine_distance ?b ?a ?idf = Inr (2 / 5)"
    by auto
  from tfidf_cosine_distance_properties [OF db db cb]
  have bb: "tfidf_cosine_distance ?b ?b ?idf = Inr 0"
    by (auto simp: new_microcluster_def)
  have "spec_norm ?z ?idf = 0"
    by (simp add: spec_norm_def keys_def new_microcluster_def)
  with tfidf_cosine_distance_properties [OF dz db cb]
  have zb: "tfidf_cosine_distance ?z ?b ?idf = Inr 1"
    by auto
  show ?thesis
    using da db cb ab ba bb zb by simp
qed

text \<open>
  The claim as stated fails for an IDF table that lacks a term of the second vector
  (the distance is then defined in one order only), and for a negative frequency.
\<close>

theorem tfidf_cosine_distance_counterexample:
  "tfidf_cosine_distance
     (new_microcluster [(''x'', \<lparr>tfvalue = 1, ids = [None]\<rparr>)] (Some 1) 1 None None None)
     (new_microcluster [(''y'', \<lparr>tfvalue = 1, ids = [None]\<rparr>)] (Some 1) 1 None None (Some 0))
     [(''y'', 1)] = Inr 1
   \<and> tfidf_cosine_distance
     (new_microcluster [(''y'', \<lparr>tfvalue = 1, ids = [None]\<rparr>)] (Some 1) 1 None None (Some 0))
     (new_microcluster [(''x'', \<lparr>tfvalue = 1, ids = [None]\<rparr>)] (Some 1) 1 None None None)
     [(''y'', 1)] = Inl KeyError
   \<and> tfidf_cosine_distance
     (new_microcluster [(''x'', \<lparr>tfvalue = 1, ids = [None]\<rparr>)] (Some 1) 1 None None None)
     (new_microcluster [(''x'', \<lparr>tfvalue = - 1, ids = [None]\<rparr>)] (Some 1) 1 None None (Some 0))
     [(''x'', 1)] = Inr 2"
  by (simp add: tfidf_cosine_distance_def new_microcluster_def py_round_def round_half_even_def)


subsection \<open>The name of the distance metric\<close>

lemma closest_loop_unknown_metric:
  assumes "name \<noteq> ''tfidf_cosine_distance''" and "mcs \<noteq> []"
  shows "closest_loop name mc idf mcs (min_d, smallest_key, sumdist, squaresum, counter)
         = Inl (if name = ''dist'' then RecursionError else TypeError)"
proof -
  from assms(2) obtain key micro rest where "mcs = (key, micro) # rest"
    by (cases mcs) auto
  with assms(1) show ?thesis by (simp add: dist_def)
qed

text \<open>
  C9 (as amended). The constructor stores the configured metric names as they are and
  never fails. A name other than \<open>tfidf_cosine_distance\<close> is only found out when a distance
  is computed, and then no computation returns a distance: the call raises
  \<open>RecursionError\<close> for the name \<open>dist\<close> and \<open>TypeError\<close> for every other name but
  \<open>__subclasshook__\<close>, for which it returns \<open>NotImplemented\<close>, and the arithmetic of the
  caller raises \<open>TypeError\<close> on that. So the error is raised per call: every \<open>learn_one\<close>
  with an \<open>id\<close> and a non-empty observation on a clusterer that has a live cluster raises
  it, having cleared the freshness flag and set the current time, with every cluster as
  it was.
\<close>

theorem unknown_metric_resolved_per_call:
  assumes "name \<noteq> ''tfidf_cosine_distance''"
  shows "micro_distance (init r l g tfd rtf name mac nm mw ar am sg) = name
       \<and> macro_distance (init r l g tfd rtf mic name nm mw ar am sg) = name
       \<and> dist name m1 m2 idf =
           (if name = ''dist'' then Inl RecursionError
            else if name = ''__subclasshook__'' then Inr NotImplemented
            else Inl TypeError)
       \<and> (micro_distance s = name \<and> microclusters s \<noteq> [] \<and> x \<noteq> [] \<longrightarrow>
            learn_one var s x time (Some v) =
              (s\<lparr>upToDate := False,
                 t_now := (if realtimefading s then time else Some (real (n_obs s)))\<rparr>,
               Inl (if name = ''dist'' then RecursionError else TypeError)))"
proof -
  have "learn_one var s x time (Some v) =
              (s\<lparr>upToDate := False,
                 t_now := (if realtimefading s then time else Some (real (n_obs s)))\<rparr>,
               Inl (if name = ''dist'' then RecursionError else TypeError))"
    if h: "micro_distance s = name" "microclusters s \<noteq> []" "x \<noteq> []"
  proof -
    define s1 where "s1 = s\<lparr>upToDate := False,
        t_now := (if realtimefading s then time else Some (real (n_obs s)))\<rparr>"
    have m: "microclusters s1 \<noteq> []" "micro_distance s1 = name"
      using h by (simp_all add: s1_def)
    have "learn_one_process var s1 (make_ngrams x (if v = None \<or> v = Some 0 then None else v))
            (if v = None \<or> v = Some 0 then None else v)
          = (s1, Inl (if name = ''dist'' then RecursionError else TypeError))"
      unfolding learn_one_process_def get_closest_mc_def Let_def m(2)
        closest_loop_unknown_metric [OF assms m(1)]
      by simp
    moreover have "length (make_ngrams x (if v = None \<or> v = Some 0 then None else v)) > 0"
      using h(3) by (simp add: make_ngrams_def)
    ultimately show ?thesis
      unfolding learn_one_def Let_def s1_def [symmetric] by simp
  qed
  with assms show ?thesis by (simp add: init_def dist_def)
qed

theorem unknown_metric_resolved_per_call_witness:
  "(let c = init (3 / 10) (1 / 2000) 100 True False ''__subclasshook__'' ''__subclasshook__''
              3 0 False True 1;
        s = fst (learn_one exact_variance c [(''a'', 1)] None (Some (Some 1)))
    in ''__subclasshook__'' \<noteq> ''tfidf_cosine_distance''
     \<and> micro_distance c = ''__subclasshook__''
     \<and> macro_distance c = ''__subclasshook__''
     \<and> length (microclusters s) = 1
     \<and> dist ''__subclasshook__'' (snd (hd (microclusters s))) (snd (hd (microclusters s))) [(''a'', 1)]
         = Inr NotImplemented
     \<and> learn_one exact_variance s [(''a'', 1)] None (Some (Some 2))
         = (s\<lparr>t_now := Some 2\<rparr>, Inl TypeError))"
proof -
  define c where "c = init (3 / 10) (1 / 2000) 100 True False ''__subclasshook__''
      ''__subclasshook__'' 3 0 False True 1"
  define s where "s = fst (learn_one exact_variance c [(''a'', 1)] None (Some (Some 1)))"
  have s: "s = c\<lparr>t_now := Some 1, n_obs := 2, dist_mean := 1, assignment := [(1, 0)],
        microclusters := [(0, new_microcluster [(''a'', \<lparr>tfvalue = 1, ids = [Some 1]\<rparr>)] (Some 1) 1 None
                               (Some 1) (Some 0))],
        clusterId := 1\<rparr>"
    unfolding s_def c_def
    by (simp add: init_def learn_one_def learn_one_process_def learn_one_new_def make_ngrams_def
        new_microcluster_def calculateIDF_def dict_values_def get_closest_mc_def cleanup_due_def
        Let_def)
  have n: "''__subclasshook__'' \<noteq> ''tfidf_cosine_distance''" by simp
  have f: "micro_distance s = ''__subclasshook__''" "microclusters s \<noteq> []"
    "length (microclusters s) = 1" "\<not> realtimefading s" "n_obs s = 2" "\<not> upToDate s"
    by (simp_all add: s c_def init_def)
  have x: "[(''a'', 1::real)] \<noteq> []" by simp
  note t = unknown_metric_resolved_per_call [OF n, where s = s and x = "[(''a'', 1)]"
      and var = exact_variance and time = None and v = "Some 2"
      and ?m1.0 = "snd (hd (microclusters s))" and ?m2.0 = "snd (hd (microclusters s))"
      and idf = "[(''a'', 1)]" and r = "3 / 10" and l = "1 / 2000" and g = 100 and tfd = True
      and rtf = False and mac = "''__subclasshook__''" and mic = "''__subclasshook__''"
      and nm = 3 and mw = 0 and ar = False and am = True and sg = 1]
  from t have 1: "micro_distance c = ''__subclasshook__''" "macro_distance c = ''__subclasshook__''"
    unfolding c_def by blast+
  from t have 2: "dist ''__subclasshook__'' (snd (hd (microclusters s))) (snd (hd (microclusters s)))
      [(''a'', 1)] = Inr NotImplemented"
    by simp
  from t f(1,2) x have "learn_one exact_variance s [(''a'', 1)] None (Some (Some 2))
      = (s\<lparr>upToDate := False, t_now := (if realtimefading s then None else Some (real (n_obs s)))\<rparr>,
         Inl TypeError)"
    by simp
  moreover have "s\<lparr>upToDate := False, t_now := (if realtimefading s then None else Some (real (n_obs s)))\<rparr>
      = s\<lparr>t_now := Some 2\<rparr>"
    using f(4,5,6) by simp
  ultimately have 3: "learn_one exact_variance s [(''a'', 1)] None (Some (Some 2))
      = (s\<lparr>t_now := Some 2\<rparr>, Inl TypeError)"
    by simp
  show ?thesis
    unfolding Let_def c_def [symmetric] s_def [symmetric]
    using n 1 2 3 f(3) by simp
qed

text \<open>
  The claim as stated fails: with the unknown name \<open>cosine\<close> the constructor returns a
  clusterer, the first \<open>learn_one\<close> (no live cluster, no distance) returns the cluster 0,
  and the second reaches the distance computation and raises \<open>TypeError\<close>.
\<close>

theorem unknown_metric_counterexample:
  "micro_distance (init (3 / 10) (1 / 2000) 100 True False ''cosine'' ''cosine'' 3 0 False True 1) = ''cosine''
   \<and> snd (learn_one exact_variance
             (init (3 / 10) (1 / 2000) 100 True False ''cosine'' ''cosine'' 3 0 False True 1)
             [(''a'', 1)] None (Some (Some 1))) = Inr 0
   \<and> snd (learn_one exact_variance
             (fst (learn_one exact_variance
                     (init (3 / 10) (1 / 2000) 100 True False ''cosine'' ''cosine'' 3 0 False True 1)
                     [(''a'', 1)] None (Some (Some 1))))
             [(''a'', 1)] None (Some (Some 2))) = Inl TypeError"
  by (simp add: init_def learn_one_def learn_one_process_def learn_one_new_def learn_one_merge_def
      make_ngrams_def new_microcluster_def calculateIDF_def dict_values_def keys_def
      get_closest_mc_def dist_def cleanup_due_def Let_def)


subsection \<open>The threshold policy\<close>









lemma count_keys_dom: "fst ` set (count_keys ks r) = set ks \<union> fst ` set r"
  by (induction ks arbitrary: r) (auto simp: dom_update split: option.splits)

lemma count_df_dom:
  "fst ` set (count_df mcs r) = (\<Union>m \<in> set mcs. set (keys (tf m))) \<union> fst ` set r"
  by (induction mcs arbitrary: r) (auto simp: count_keys_dom)

lemma calculateIDF_dom: "fst ` set (calculateIDF mcs) = (\<Union>m \<in> set mcs. set (keys (tf m)))"
proof -
  have "fst ` set (calculateIDF mcs) = fst ` set (count_df mcs [])"
    by (force simp: calculateIDF_def)
  then show ?thesis by (simp add: count_df_dom)
qed

text \<open>
  The IDF table is computed over the live clusters, so it has every term of every live
  cluster: the metric returns a distance to each of them.
\<close>

lemma dist_live_cluster:
  assumes "(key, micro) \<in> set mcs"
  shows "\<exists>d. dist ''tfidf_cosine_distance'' mc micro (calculateIDF (dict_values mcs)) = Inr (Number d)"
proof -
  have "micro \<in> set (dict_values mcs)"
    using assms by (force simp: dict_values_def)
  then have "fst ` set (tf micro) \<subseteq> fst ` set (calculateIDF (dict_values mcs))"
    unfolding calculateIDF_dom by (auto simp: keys_def)
  from cosine_loop2_sum_list [OF this]
  show ?thesis
    by (simp add: dist_def tfidf_cosine_distance_def split: prod.splits)
qed











subsection \<open>Macro-clusters\<close>

lemma omega_default: "\<not> (1::real) \<le> 2 powr (- (1 / 20))"
  by (simp add: not_le powr_less_one)

lemma learn_first:
  "learn_one var (init (3 / 10) (1 / 2000) 100 True False ''tfidf_cosine_distance'' ''tfidf_cosine_distance''
                3 0 False True 1) [(''a'', 1)] None (Some (Some 1))
   = ((init (3 / 10) (1 / 2000) 100 True False ''tfidf_cosine_distance'' ''tfidf_cosine_distance''
                3 0 False True 1)
       \<lparr>t_now := Some 1, n_obs := 2, dist_mean := 1, assignment := [(1, 0)],
        microclusters := [(0, new_microcluster [(''a'', \<lparr>tfvalue = 1, ids = [Some 1]\<rparr>)] (Some 1) 1 None
                               (Some 1) (Some 0))],
        clusterId := 1\<rparr>, Inr 0)"
  by (simp add: init_def learn_one_def learn_one_process_def learn_one_new_def make_ngrams_def
      new_microcluster_def calculateIDF_def dict_values_def get_closest_mc_def cleanup_due_def Let_def)

text \<open>
  C7. With the default configuration and one observation learnt, one micro-cluster is
  live and survives the weight filter. \<open>updateMacroClusters\<close> succeeds and assigns it
  the label 1 (\<open>assigned_clusters = [1]\<close>); \<open>get_macroclusters\<close> then creates
  \<open>min(num_macro, 1) = 1\<close> macro-cluster, under the label 0, and \<open>macros[1]\<close> raises
  \<open>KeyError\<close>: the request fails, whatever the clustering library would return.
\<close>

theorem get_macroclusters_single_cluster:
  "map_prod microToMacro id
     (updateMacroClusters fit
        (fst (learn_one var (init (3 / 10) (1 / 2000) 100 True False ''tfidf_cosine_distance''
                           ''tfidf_cosine_distance'' 3 0 False True 1)
                [(''a'', 1)] None (Some (Some 1))))) = (Some [(0, 1)], None)
   \<and> snd (get_macroclusters fit
          (fst (learn_one var (init (3 / 10) (1 / 2000) 100 True False ''tfidf_cosine_distance''
                             ''tfidf_cosine_distance'' 3 0 False True 1)
                  [(''a'', 1)] None (Some (Some 1))))) = Inl KeyError"
  unfolding learn_first
  by (simp add: init_def get_macroclusters_def updateMacroClusters_def updateweights_def fade_def
      new_microcluster_def keys_def omega_default Let_def)

subsection \<open>\<open>learn_one\<close> on an empty observation\<close>

lemma fade_all_keys:
  "fade_all t om lam tfd rt mcs = (mcs', err) \<Longrightarrow> map fst mcs' = map fst mcs"
proof (induction mcs arbitrary: mcs' err)
  case Nil
  then show ?case by simp
next
  case (Cons p mcs)
  obtain key micro where p: "p = (key, micro)" by (cases p)
  show ?case
  proof (cases "fade micro t om lam tfd rt")
    case (Inl e)
    with Cons.prems p show ?thesis by auto
  next
    case (Inr micro')
    obtain rest' err' where r: "fade_all t om lam tfd rt mcs = (rest', err')"
      by (cases "fade_all t om lam tfd rt mcs") auto
    from Cons.IH [OF r] Cons.prems p Inr r show ?thesis by auto
  qed
qed

lemma updateweights_frame:
  assumes "updateweights s = (s1, err)"
  shows "\<exists>mcs. s1 = s\<lparr>microclusters := mcs\<rparr> \<and> length mcs \<le> length (microclusters s)"
proof -
  obtain mcs ferr where f: "fade_all (t_now s) (omega s) (lambda s) (termfading s) (realtime s)
      (microclusters s) = (mcs, ferr)"
    by (cases "fade_all (t_now s) (omega s) (lambda s) (termfading s) (realtime s) (microclusters s)")
       auto
  from fade_all_keys [OF f] have l: "length mcs = length (microclusters s)"
    by (metis length_map)
  show ?thesis
  proof (cases ferr)
    case None
    with assms f have "s1 = s\<lparr>microclusters :=
        filter (\<lambda>(key, micro). \<not> (weight micro \<le> omega s \<or> length (tf micro) = 0)) mcs\<rparr>"
      by (simp add: updateweights_def)
    moreover have "length (filter (\<lambda>(key, micro). \<not> (weight micro \<le> omega s \<or> length (tf micro) = 0)) mcs)
        \<le> length (microclusters s)"
      using l length_filter_le [of _ mcs] by simp
    ultimately show ?thesis by blast
  next
    case (Some e)
    with assms f have "s1 = s\<lparr>microclusters := mcs\<rparr>"
      by (simp add: updateweights_def)
    with l show ?thesis by auto
  qed
qed

lemma merge_outer_length:
  "merge_outer p mcs = (mcs', err) \<Longrightarrow> length mcs' \<le> length mcs"
proof (induction p mcs arbitrary: mcs' err rule: merge_outer.induct)
  case (1 p)
  then show ?case by simp
next
  case (2 p c rest)
  obtain c' rest' ierr where i: "merge_inner p c rest = (c', rest', ierr)"
    by (cases "merge_inner p c rest") auto
  from merge_inner_length [OF i] have l: "length rest' \<le> length rest" .
  show ?case
  proof (cases ierr)
    case (Some e)
    with "2.prems" i l show ?thesis by auto
  next
    case None
    obtain rest'' oerr where o: "merge_outer p rest' = (rest'', oerr)"
      by (cases "merge_outer p rest'") auto
    from "2.IH" [OF i [symmetric] refl None o] have "length rest'' \<le> length rest'" .
    with "2.prems" i None o l show ?thesis by auto
  qed
qed

lemma mergemicroclusters_frame:
  assumes "mergemicroclusters s = (s1, err)"
  shows "\<exists>mcs. s1 = s\<lparr>microclusters := mcs\<rparr> \<and> length mcs \<le> length (microclusters s)"
proof -
  let ?p = "(micro_distance s, calculateIDF (dict_values (microclusters s)),
             (if auto_r s then dist_mean s / (real (num_merged_obs s) + 1) else radius s),
             t_now s, omega s, lambda s, termfading s, realtime s)"
  obtain mcs oerr where o: "merge_outer ?p (microclusters s) = (mcs, oerr)"
    by (cases "merge_outer ?p (microclusters s)") auto
  with assms have s1: "s1 = s\<lparr>microclusters := mcs\<rparr>"
    by (simp add: mergemicroclusters_def Let_def)
  with merge_outer_length [OF o] show ?thesis by blast
qed

lemma cleanup_frame:
  assumes "cleanup s = (s', err)"
  shows "\<exists>mcs lc dm nm. s' = s\<lparr>microclusters := mcs, lastCleanup := lc, dist_mean := dm,
                                 num_merged_obs := nm\<rparr>
           \<and> length mcs \<le> length (microclusters s)"
proof -
  obtain s1 e1 where u: "updateweights (s\<lparr>lastCleanup := t_now s\<rparr>) = (s1, e1)"
    by (cases "updateweights (s\<lparr>lastCleanup := t_now s\<rparr>)") auto
  from updateweights_frame [OF u] obtain mcs1
    where s1: "s1 = s\<lparr>lastCleanup := t_now s, microclusters := mcs1\<rparr>"
      and l1: "length mcs1 \<le> length (microclusters s)"
    by auto
  have g: "\<exists>mcs lc dm nm. r = s\<lparr>microclusters := mcs, lastCleanup := lc, dist_mean := dm,
                                 num_merged_obs := nm\<rparr>
           \<and> length mcs \<le> length (microclusters s)"
    if "r = s\<lparr>lastCleanup := t_now s, microclusters := mcs, dist_mean := dm, num_merged_obs := nm\<rparr>"
      "length mcs \<le> length (microclusters s)" for r mcs dm nm
    using that by (intro exI [of _ mcs] exI [of _ "t_now s"] exI [of _ dm] exI [of _ nm]) simp
  show ?thesis
  proof (cases e1)
    case (Some e)
    with assms u have "s' = s1" by (simp add: cleanup_def)
    with s1 have "s' = s\<lparr>lastCleanup := t_now s, microclusters := mcs1, dist_mean := dist_mean s,
        num_merged_obs := num_merged_obs s\<rparr>" by simp
    from g [OF this l1] show ?thesis .
  next
    case None
    define mcs2 where "mcs2 = map (\<lambda>(key, micro). (key, micro\<lparr>deltaweight := weight micro - oldweight micro,
                                     oldweight := weight micro\<rparr>)) mcs1"
    define s2 where "s2 = s1\<lparr>microclusters := mcs2\<rparr>"
    have l2: "length mcs2 \<le> length (microclusters s)"
      using l1 by (simp add: mcs2_def)
    have s2: "s2 = s\<lparr>lastCleanup := t_now s, microclusters := mcs2\<rparr>"
      by (simp add: s2_def s1)
    obtain s3 e3 where m: "(if auto_merge s2 then mergemicroclusters s2 else (s2, None)) = (s3, e3)"
      by (cases "if auto_merge s2 then mergemicroclusters s2 else (s2, None)") auto
    have "\<exists>mcs3. s3 = s2\<lparr>microclusters := mcs3\<rparr> \<and> length mcs3 \<le> length (microclusters s2)"
    proof (cases "auto_merge s2")
      case True
      with m have "mergemicroclusters s2 = (s3, e3)" by simp
      from mergemicroclusters_frame [OF this] show ?thesis .
    next
      case False
      with m have "s3 = s2" by simp
      then have "s3 = s2\<lparr>microclusters := microclusters s2\<rparr>" by simp
      then show ?thesis by blast
    qed
    then obtain mcs3 where s3: "s3 = s\<lparr>lastCleanup := t_now s, microclusters := mcs3\<rparr>"
      and l3: "length mcs3 \<le> length (microclusters s)"
      using l2 by (auto simp: s2)
    have "cleanup s = (case (if auto_merge s2 then mergemicroclusters s2 else (s2, None)) of
                         (s3, Some e) \<Rightarrow> (s3, Some e)
                       | (s3, None) \<Rightarrow> (s3\<lparr>dist_mean := 0, num_merged_obs := 0\<rparr>, None))"
      unfolding cleanup_def u None s2_def mcs2_def Let_def
      by (simp add: s1)
    then have c: "cleanup s = (case e3 of Some e \<Rightarrow> (s3, Some e)
                          | None \<Rightarrow> (s3\<lparr>dist_mean := 0, num_merged_obs := 0\<rparr>, None))"
      unfolding m by (simp split: option.splits)
    show ?thesis
    proof (cases e3)
      case (Some e)
      with c assms have "s' = s3" by simp
      with s3 have "s' = s\<lparr>lastCleanup := t_now s, microclusters := mcs3, dist_mean := dist_mean s,
          num_merged_obs := num_merged_obs s\<rparr>" by simp
      from g [OF this l3] show ?thesis .
    next
      case None
      with c assms have "s' = s3\<lparr>dist_mean := 0, num_merged_obs := 0\<rparr>" by simp
      with s3 have "s' = s\<lparr>lastCleanup := t_now s, microclusters := mcs3, dist_mean := 0,
          num_merged_obs := 0\<rparr>" by simp
      from g [OF this l3] show ?thesis .
    qed
  qed
qed

text \<open>
  C4 (as amended). Without an \<open>id\<close>, \<open>learn_one\<close> raises \<open>KeyError\<close> before it changes
  anything. With an \<open>id\<close> and an empty term mapping it creates no cluster and records no
  assignment: the assignment log and the next cluster identifier are as before and the
  number of live clusters does not grow. It clears the freshness flag and sets the current
  time (to the observation counter, or to the time passed when real-time fading is on),
  and it runs the cleanup, which fades, evicts and merges live clusters, exactly when the
  cleanup is due: the state is then the one the cleanup leaves, with the observation
  counter incremented when the cleanup raised nothing. When the cleanup is not due,
  nothing else changes but the observation counter, which is incremented; when the test
  for the cleanup raises (\<open>TypeError\<close>, the current time being \<open>None\<close>), nothing else
  changes. The call then ends in \<open>UnboundLocalError\<close> at \<open>return clusterId\<close>, unless the
  test or the cleanup raised before.
\<close>

theorem learn_one_empty:
  fixes s :: textclust and time :: "real option" and v :: "nat option"
  defines "s1 \<equiv> s\<lparr>upToDate := False,
                     t_now := (if realtimefading s then time else Some (real (n_obs s)))\<rparr>"
  shows "learn_one var s [] time None = (s, Inl KeyError)
       \<and> (case learn_one var s [] time (Some v) of
            (s', r) \<Rightarrow>
              assignment s' = assignment s \<and> clusterId s' = clusterId s
            \<and> length (microclusters s') \<le> length (microclusters s)
            \<and> \<not> upToDate s' \<and> t_now s' = t_now s1
            \<and> (case cleanup_due s1 of
                 Inl e \<Rightarrow> (s', r) = (s1, Inl e)
               | Inr True \<Rightarrow>
                   (s', r) = (case cleanup s1 of
                               (s3, Some e) \<Rightarrow> (s3, Inl e)
                             | (s3, None) \<Rightarrow> (s3\<lparr>n_obs := n_obs s3 + 1\<rparr>, Inl UnboundLocalError))
               | Inr False \<Rightarrow> (s', r) = (s1\<lparr>n_obs := n_obs s + 1\<rparr>, Inl UnboundLocalError)))"
proof -
  have l: "learn_one var s [] time (Some v) =
      (case cleanup_due s1 of
         Inl e \<Rightarrow> (s1, Inl e)
       | Inr due \<Rightarrow>
           (case (if due then cleanup s1 else (s1, None)) of
              (s3, Some e) \<Rightarrow> (s3, Inl e)
            | (s3, None) \<Rightarrow> (s3\<lparr>n_obs := n_obs s3 + 1\<rparr>, Inl UnboundLocalError)))"
    unfolding learn_one_def s1_def Let_def make_ngrams_def
    by (auto split: sum.splits prod.splits option.splits)
  have b: "assignment s1 = assignment s" "clusterId s1 = clusterId s" "\<not> upToDate s1"
    "microclusters s1 = microclusters s" "n_obs s1 = n_obs s"
    by (simp_all add: s1_def)
  have "case learn_one var s [] time (Some v) of
            (s', r) \<Rightarrow>
              assignment s' = assignment s \<and> clusterId s' = clusterId s
            \<and> length (microclusters s') \<le> length (microclusters s)
            \<and> \<not> upToDate s' \<and> t_now s' = t_now s1
            \<and> (case cleanup_due s1 of
                 Inl e \<Rightarrow> (s', r) = (s1, Inl e)
               | Inr True \<Rightarrow>
                   (s', r) = (case cleanup s1 of
                               (s3, Some e) \<Rightarrow> (s3, Inl e)
                             | (s3, None) \<Rightarrow> (s3\<lparr>n_obs := n_obs s3 + 1\<rparr>, Inl UnboundLocalError))
               | Inr False \<Rightarrow> (s', r) = (s1\<lparr>n_obs := n_obs s + 1\<rparr>, Inl UnboundLocalError))"
  proof (cases "cleanup_due s1")
    case (Inl e)
    with l b show ?thesis by simp
  next
    case (Inr due)
    show ?thesis
    proof (cases due)
      case False
      with l Inr b show ?thesis by simp
    next
      case True
      obtain s3 e3 where c: "cleanup s1 = (s3, e3)"
        by (cases "cleanup s1") auto
      from cleanup_frame [OF c] obtain mcs lc dm nm where
        s3: "s3 = s1\<lparr>microclusters := mcs, lastCleanup := lc, dist_mean := dm, num_merged_obs := nm\<rparr>"
        and len: "length mcs \<le> length (microclusters s1)"
        by blast
      have "assignment s3 = assignment s" "clusterId s3 = clusterId s" "\<not> upToDate s3"
        "length (microclusters s3) \<le> length (microclusters s)" "t_now s3 = t_now s1"
        using b len by (simp_all add: s3)
      with l Inr True c show ?thesis
        by (cases e3) simp_all
    qed
  qed
  moreover have "learn_one var s [] time None = (s, Inl KeyError)"
    by (simp add: learn_one_def)
  ultimately show ?thesis by blast
qed

theorem learn_one_empty_witness:
  "(let s = fst (learn_one exact_variance
                   (init (3 / 10) (1 / 2000) 100 True False ''tfidf_cosine_distance''
                      ''tfidf_cosine_distance'' 3 0 False True 1)
                   [(''a'', 1)] None (Some (Some 1)))
    in cleanup_due (s\<lparr>upToDate := False,
                      t_now := (if realtimefading s then None else Some (real (n_obs s)))\<rparr>) = Inr False
     \<and> length (microclusters s) = 1 \<and> t_now s = Some 1 \<and> n_obs s = 2
     \<and> learn_one exact_variance s [] None None = (s, Inl KeyError)
     \<and> learn_one exact_variance s [] None (Some (Some 2))
         = (s\<lparr>t_now := Some 2, n_obs := 3\<rparr>, Inl UnboundLocalError))"
proof -
  define s where "s = fst (learn_one exact_variance
                   (init (3 / 10) (1 / 2000) 100 True False ''tfidf_cosine_distance''
                      ''tfidf_cosine_distance'' 3 0 False True 1)
                   [(''a'', 1)] None (Some (Some 1)))"
  have d: "cleanup_due (s\<lparr>upToDate := False,
                      t_now := (if realtimefading s then None else Some (real (n_obs s)))\<rparr>) = Inr False"
    and n: "length (microclusters s) = 1" "t_now s = Some 1" "n_obs s = 2" "\<not> realtimefading s"
      "\<not> upToDate s"
    unfolding s_def learn_first by (simp_all add: init_def cleanup_due_def)
  note t = learn_one_empty [where s = s and time = None and v = "Some 2" and var = exact_variance]
  from t have 1: "learn_one exact_variance s [] None None = (s, Inl KeyError)" by blast
  from t d have "learn_one exact_variance s [] None (Some (Some 2))
      = (s\<lparr>upToDate := False, t_now := (if realtimefading s then None else Some (real (n_obs s))),
           n_obs := n_obs s + 1\<rparr>, Inl UnboundLocalError)"
    by (simp split: prod.splits)
  moreover have "s\<lparr>upToDate := False, t_now := (if realtimefading s then None else Some (real (n_obs s))),
           n_obs := n_obs s + 1\<rparr> = s\<lparr>t_now := Some 2, n_obs := 3\<rparr>"
    using n by simp
  ultimately have 2: "learn_one exact_variance s [] None (Some (Some 2))
      = (s\<lparr>t_now := Some 2, n_obs := 3\<rparr>, Inl UnboundLocalError)"
    by simp
  show ?thesis
    unfolding Let_def s_def [symmetric] using d n 1 2 by simp
qed

lemma learn_first_gap_1:
  "learn_one var (init (3 / 10) 1 1 True False ''tfidf_cosine_distance'' ''tfidf_cosine_distance''
                3 0 False True 1) [(''a'', 1)] None (Some (Some 1))
   = ((init (3 / 10) 1 1 True False ''tfidf_cosine_distance'' ''tfidf_cosine_distance''
                3 0 False True 1)
       \<lparr>t_now := Some 1, lastCleanup := Some 1, n_obs := 2, assignment := [(1, 0)],
        microclusters := [(0, (new_microcluster [(''a'', \<lparr>tfvalue = 1, ids = [Some 1]\<rparr>)] (Some 1) 1 None
                                 (Some 1) (Some 0))\<lparr>oldweight := 1, deltaweight := 1\<rparr>)],
        clusterId := 1\<rparr>, Inr 0)"
  by (simp add: init_def learn_one_def learn_one_process_def learn_one_new_def make_ngrams_def
      new_microcluster_def calculateIDF_def dict_values_def get_closest_mc_def cleanup_due_def
      cleanup_def updateweights_def fade_def mergemicroclusters_def powr_minus Let_def)

text \<open>
  The claim as stated fails: with decay rate 1 and cleanup interval 1, the cluster of the
  first observation is live when the empty observation arrives; the call runs the cleanup,
  which evicts the cluster, and ends in \<open>UnboundLocalError\<close> at \<open>return clusterId\<close>.
\<close>

theorem learn_one_empty_counterexample:
  "(let s = fst (learn_one exact_variance
                   (init (3 / 10) 1 1 True False ''tfidf_cosine_distance''
                      ''tfidf_cosine_distance'' 3 0 False True 1)
                   [(''a'', 1)] None (Some (Some 1)))
    in length (microclusters s) = 1
     \<and> length (microclusters (fst (learn_one exact_variance s [] None (Some (Some 2))))) = 0
     \<and> snd (learn_one exact_variance s [] None (Some (Some 2))) = Inl UnboundLocalError)"
  unfolding learn_first_gap_1
  by (simp add: init_def learn_one_def make_ngrams_def new_microcluster_def calculateIDF_def
      dict_values_def cleanup_due_def cleanup_def updateweights_def fade_def
      mergemicroclusters_def powr_minus Let_def)


subsection \<open>\<open>predict_one\<close>\<close>

text \<open>
  \<open>_updateweights\<close> is idempotent: a second call at the same time finds every cluster
  faded and changes nothing, so that repeated queries do not fade the clusters twice.
\<close>

lemma fade_terms_above: "(k, e) \<in> set (fade_terms f om d) \<Longrightarrow> om < tfvalue e"
  by (induction f om d rule: fade_terms.induct) (auto split: if_splits)

lemma fade_terms_idem: "(\<And>k e. (k, e) \<in> set d \<Longrightarrow> om < tfvalue e) \<Longrightarrow> fade_terms 1 om d = d"
proof (induction d)
  case Nil
  then show ?case by simp
next
  case (Cons p d)
  obtain k e where p: "p = (k, e)" by (cases p)
  have "om < tfvalue e" using Cons.prems [of k e] p by simp
  moreover have "fade_terms 1 om d = d"
    using Cons.prems by (intro Cons.IH) auto
  ultimately show ?case using p by simp
qed

lemma fade_idem:
  assumes "fade m t om lam tfd rt = Inr m'"
  shows "fade m' t om lam tfd rt = Inr m'"
proof -
  from assms obtain tn tm where t: "t = Some tn" and tm: "mc_time m = Some tm"
    by (auto simp: fade_def split: option.splits)
  from assms t tm have m': "m' = m\<lparr>weight := weight m * 2 powr (- lam * (tn - tm)),
        tf := (if tfd then fade_terms (2 powr (- lam * (tn - tm))) om (tf m) else tf m),
        mc_time := Some tn, mc_realtime := rt\<rparr>"
    by (simp add: fade_def)
  have "fade_terms 1 om (fade_terms (2 powr (- lam * (tn - tm))) om (tf m))
      = fade_terms (2 powr (- lam * (tn - tm))) om (tf m)"
    by (rule fade_terms_idem) (rule fade_terms_above)
  then show ?thesis
    unfolding m' t by (simp add: fade_def)
qed

lemma fade_all_fixed:
  "(\<And>k m. (k, m) \<in> set mcs \<Longrightarrow> fade m t om lam tfd rt = Inr m)
    \<Longrightarrow> fade_all t om lam tfd rt mcs = (mcs, None)"
proof (induction mcs)
  case Nil
  then show ?case by simp
next
  case (Cons p mcs)
  obtain k m where p: "p = (k, m)" by (cases p)
  have "fade m t om lam tfd rt = Inr m" using Cons.prems [of k m] p by simp
  moreover have "fade_all t om lam tfd rt mcs = (mcs, None)"
    using Cons.prems by (intro Cons.IH) auto
  ultimately show ?case using p by simp
qed

lemma fade_all_faded:
  "fade_all t om lam tfd rt mcs = (mcs', None) \<Longrightarrow> (k, m') \<in> set mcs'
    \<Longrightarrow> fade m' t om lam tfd rt = Inr m'"
proof (induction mcs arbitrary: mcs')
  case Nil
  then show ?case by simp
next
  case (Cons p mcs)
  obtain key micro where p: "p = (key, micro)" by (cases p)
  show ?case
  proof (cases "fade micro t om lam tfd rt")
    case (Inl e)
    with Cons.prems p show ?thesis by simp
  next
    case (Inr micro')
    obtain rest' err' where r: "fade_all t om lam tfd rt mcs = (rest', err')"
      by (cases "fade_all t om lam tfd rt mcs") auto
    with Cons.prems(1) p Inr have e: "err' = None" and mcs': "mcs' = (key, micro') # rest'"
      by auto
    from Cons.prems(2) mcs' consider "m' = micro'" | "(k, m') \<in> set rest'" by auto
    then show ?thesis
    proof cases
      case 1
      with fade_idem [OF Inr] show ?thesis by simp
    next
      case 2
      from Cons.IH [OF _ 2] r e show ?thesis by simp
    qed
  qed
qed

lemma updateweights_idem:
  assumes "updateweights s = (s1, None)"
  shows "updateweights s1 = (s1, None)"
proof -
  let ?P = "\<lambda>(key, micro). \<not> (weight micro \<le> omega s \<or> length (tf micro) = 0)"
  obtain mcs ferr where f: "fade_all (t_now s) (omega s) (lambda s) (termfading s) (realtime s)
      (microclusters s) = (mcs, ferr)"
    by (cases "fade_all (t_now s) (omega s) (lambda s) (termfading s) (realtime s) (microclusters s)")
       auto
  with assms have ferr: "ferr = None" and s1: "s1 = s\<lparr>microclusters := filter ?P mcs\<rparr>"
    by (cases ferr; simp add: updateweights_def)+
  have "fade_all (t_now s) (omega s) (lambda s) (termfading s) (realtime s) (filter ?P mcs)
      = (filter ?P mcs, None)"
  proof (rule fade_all_fixed)
    fix k m
    assume "(k, m) \<in> set (filter ?P mcs)"
    then have "(k, m) \<in> set mcs" by simp
    with f ferr show "fade m (t_now s) (omega s) (lambda s) (termfading s) (realtime s) = Inr m"
      by (auto intro: fade_all_faded)
  qed
  then show ?thesis
    unfolding s1 by (simp add: updateweights_def)
qed

lemma get_assignment_state:
  assumes "updateweights s = (s1, e1)" and "get_assignment s x type_name = (s', r)"
  shows "s' = s1"
  using assms unfolding get_assignment_def Let_def
  by (auto split: if_splits sum.splits option.splits prod.splits)

text \<open>
  C5 (as amended). \<open>predict_one\<close> changes the live micro-clusters exactly as
  \<open>_updateweights\<close> does (every live cluster faded to the current time, then the clusters
  at or below \<open>omega\<close> or without terms evicted, so their number does not grow), and may
  change the reclustering cache (the micro-to-macro mapping and the freshness flag);
  every other field of the clusterer is as before. With the type \<open>micro\<close> the state after
  the call is the state after \<open>_updateweights\<close>. (With another type the call never reaches the
  cache: it returns \<open>None\<close> for an empty input and raises otherwise.)
\<close>

theorem predict_one_frame:
  "case predict_one s x type_name of
     (s', r) \<Rightarrow>
       s' = s\<lparr>microclusters := microclusters (fst (updateweights s)),
              microToMacro := microToMacro s', upToDate := upToDate s'\<rparr>
       \<and> length (microclusters s') \<le> length (microclusters s)
       \<and> (type_name = ''micro'' \<longrightarrow> s' = fst (updateweights s))"
proof -
  obtain s1 e1 where u: "updateweights s = (s1, e1)"
    by (cases "updateweights s") auto
  obtain s' r where g: "get_assignment s (make_ngrams x None) type_name = (s', r)"
    by (cases "get_assignment s (make_ngrams x None) type_name") auto
  from updateweights_frame [OF u] obtain mcs where s1: "s1 = s\<lparr>microclusters := mcs\<rparr>"
    and len: "length mcs \<le> length (microclusters s)" by blast
  from get_assignment_state [OF u g]
  have "s' = s\<lparr>microclusters := mcs, microToMacro := microToMacro s', upToDate := upToDate s'\<rparr>
      \<and> length (microclusters s') \<le> length (microclusters s)
      \<and> (type_name = ''micro'' \<longrightarrow> s' = s1)"
    using len by (auto simp: s1)
  then show ?thesis
    unfolding predict_one_def g u by (simp add: s1)
qed

lemma learn_two:
  "learn_one var
     (fst (learn_one var (init (3 / 10) 1 4 True False ''tfidf_cosine_distance'' ''tfidf_cosine_distance''
                        3 0 False True 1) [(''a'', 1)] None (Some (Some 1))))
     [(''b'', 1)] None (Some (Some 2))
   = ((init (3 / 10) 1 4 True False ''tfidf_cosine_distance'' ''tfidf_cosine_distance'' 3 0 False True 1)
       \<lparr>t_now := Some 2, n_obs := 3, dist_mean := 2, assignment := [(1, 0), (2, 1)],
        microclusters :=
          [(0, new_microcluster [(''a'', \<lparr>tfvalue = 1, ids = [Some 1]\<rparr>)] (Some 1) 1 None (Some 1) (Some 0)),
           (1, new_microcluster [(''b'', \<lparr>tfvalue = 1, ids = [Some 2]\<rparr>)] (Some 2) 1 None (Some 2) (Some 1))],
        clusterId := 2\<rparr>, Inr 1)"
  by (simp add: init_def learn_one_def learn_one_process_def learn_one_new_def make_ngrams_def
      new_microcluster_def calculateIDF_def dict_values_def keys_def get_closest_mc_def dist_def
      tfidf_cosine_distance_def cleanup_due_def Let_def)

theorem predict_one_frame_witness:
  "(let s = fst (learn_one exact_variance
                   (fst (learn_one exact_variance (init (3 / 10) 1 4 True False ''tfidf_cosine_distance''
                                      ''tfidf_cosine_distance'' 3 0 False True 1)
                           [(''a'', 1)] None (Some (Some 1))))
                   [(''b'', 1)] None (Some (Some 2)))
    in ''micro'' = ''micro''
     \<and> fst (predict_one s [(''c'', 1)] ''micro'') = fst (updateweights s)
     \<and> length (microclusters (fst (predict_one s [(''c'', 1)] ''micro''))) \<le> 2)"
proof -
  define s where "s = fst (learn_one exact_variance
                   (fst (learn_one exact_variance (init (3 / 10) 1 4 True False ''tfidf_cosine_distance''
                                      ''tfidf_cosine_distance'' 3 0 False True 1)
                           [(''a'', 1)] None (Some (Some 1))))
                   [(''b'', 1)] None (Some (Some 2)))"
  have n: "length (microclusters s) = 2"
    unfolding s_def learn_two by (simp add: init_def)
  obtain s' r where p: "predict_one s [(''c'', 1)] ''micro'' = (s', r)"
    by (cases "predict_one s [(''c'', 1)] ''micro''") auto
  note frame = predict_one_frame [where s = s and x = "[(''c'', 1)]"
      and type_name = "''micro''", unfolded p prod.case]
  have "s' = fst (updateweights s)" and "length (microclusters s') \<le> length (microclusters s)"
    using frame by blast+
  with n p show ?thesis
    unfolding Let_def s_def [symmetric] by simp
qed

text \<open>
  The claim as stated fails: after two observations at the times 1 and 2 (decay rate 1),
  a \<open>predict_one\<close> halves the weight and the term frequency of the first cluster and
  moves its time stamp to 2.
\<close>

theorem predict_one_frame_counterexample:
  "(let s = fst (learn_one exact_variance
                   (fst (learn_one exact_variance (init (3 / 10) 1 4 True False ''tfidf_cosine_distance''
                                      ''tfidf_cosine_distance'' 3 0 False True 1)
                           [(''a'', 1)] None (Some (Some 1))))
                   [(''b'', 1)] None (Some (Some 2)))
    in map (\<lambda>(k, m). (k, weight m, mc_time m, map (\<lambda>(w, e). (w, tfvalue e)) (tf m))) (microclusters s)
         = [(0, 1, Some 1, [(''a'', 1)]), (1, 1, Some 2, [(''b'', 1)])]
     \<and> map (\<lambda>(k, m). (k, weight m, mc_time m, map (\<lambda>(w, e). (w, tfvalue e)) (tf m)))
          (microclusters (fst (predict_one s [(''c'', 1)] ''micro'')))
         = [(0, 1 / 2, Some 2, [(''a'', 1 / 2)]), (1, 1, Some 2, [(''b'', 1)])]
     \<and> snd (predict_one s [(''c'', 1)] ''micro'') = Inr (Some 0))"
  unfolding learn_two
  by (simp add: init_def predict_one_def get_assignment_def updateweights_def fade_def make_ngrams_def
      new_microcluster_def calculateIDF_def dict_values_def keys_def dist_def
      tfidf_cosine_distance_def py_round_def round_half_even_def powr_minus Let_def)


subsection \<open>\<open>predict_one\<close> for the macro-clusters\<close>

lemma assignment_loop_total:
  assumes "\<And>key micro. (key, micro) \<in> set mcs \<Longrightarrow> \<exists>d. dist dn mc micro idf = Inr (Number d)"
  shows "\<exists>r. assignment_loop dn mw mc idf mcs acc = Inr r"
  using assms
proof (induction mcs arbitrary: acc)
  case Nil
  then show ?case by simp
next
  case (Cons p mcs)
  obtain key micro where p: "p = (key, micro)" by (cases p)
  obtain best closest where acc: "acc = (best, closest)" by (cases acc)
  from Cons.prems [of key micro] p obtain d where d: "dist dn mc micro idf = Inr (Number d)"
    by auto
  have "\<exists>r. assignment_loop dn mw mc idf mcs acc' = Inr r" for acc'
    using Cons.prems by (intro Cons.IH) auto
  then show ?case
    unfolding p acc by (simp add: d)
qed

text \<open>
  C6. \<open>predict_one\<close> with a non-empty input and a type other than \<open>micro\<close> never returns a
  label: it raises. The reclustering cache is not touched: the micro-to-macro mapping and
  the freshness flag are as before the call, stale or not. With the implemented metric,
  and when \<open>_updateweights\<close> raises nothing, the scan for the nearest cluster succeeds and
  the exception is the \<open>AttributeError\<close> of \<open>self.get_microToMacro\<close>, raised in the state that
  \<open>_updateweights\<close> left.
\<close>

theorem predict_one_macro_raises:
  assumes "x \<noteq> []" and "type_name \<noteq> ''micro''"
  shows "(\<exists>e. snd (predict_one s x type_name) = Inl e)
       \<and> microToMacro (fst (predict_one s x type_name)) = microToMacro s
       \<and> upToDate (fst (predict_one s x type_name)) = upToDate s
       \<and> (micro_distance s = ''tfidf_cosine_distance'' \<and> snd (updateweights s) = None \<longrightarrow>
            predict_one s x type_name = (fst (updateweights s), Inl AttributeError))"
proof -
  obtain s1 e1 where u: "updateweights s = (s1, e1)"
    by (cases "updateweights s") auto
  obtain s' r where g: "get_assignment s (make_ngrams x None) type_name = (s', r)"
    by (cases "get_assignment s (make_ngrams x None) type_name") auto
  have ne: "length (make_ngrams x None) > 0"
    using assms(1) by (simp add: make_ngrams_def)
  from updateweights_frame [OF u] obtain mcs where s1: "s1 = s\<lparr>microclusters := mcs\<rparr>"
    by blast
  from get_assignment_state [OF u g] have s': "s' = s1" .
  have 1: "\<exists>e. r = Inl e"
    using g u ne assms(2) unfolding get_assignment_def Let_def
    by (auto split: option.splits sum.splits prod.splits)
  have 2: "(s', r) = (s1, Inl AttributeError)"
    if m: "micro_distance s = ''tfidf_cosine_distance''" and n: "e1 = None"
  proof -
    let ?mc = "new_microcluster (make_ngrams x None) (Some 1) 1 (realtime s1) None None"
    have "micro_distance s1 = ''tfidf_cosine_distance''"
      using m by (simp add: s1)
    then have "\<exists>r. assignment_loop (micro_distance s1) (min_weight s1) ?mc
                     (calculateIDF (dict_values (microclusters s1))) (microclusters s1) (None, None)
                   = Inr r"
      by (intro assignment_loop_total) (simp add: dist_live_cluster)
    then show ?thesis
      using g u n ne assms(2) unfolding get_assignment_def Let_def
      by (auto split: prod.splits)
  qed
  show ?thesis
    unfolding predict_one_def g u using 1 2 s' by (simp add: s1)
qed

lemma first_state_updateweights:
  "updateweights
     ((init (3 / 10) (1 / 2000) 100 True False ''tfidf_cosine_distance'' ''tfidf_cosine_distance''
         3 0 False True 1)
      \<lparr>t_now := Some 1, n_obs := 2, dist_mean := 1, assignment := [(1, 0)],
        microclusters := [(0, new_microcluster [(''a'', \<lparr>tfvalue = 1, ids = [Some 1]\<rparr>)] (Some 1) 1 None
                               (Some 1) (Some 0))],
        clusterId := 1\<rparr>)
   = ((init (3 / 10) (1 / 2000) 100 True False ''tfidf_cosine_distance'' ''tfidf_cosine_distance''
         3 0 False True 1)
      \<lparr>t_now := Some 1, n_obs := 2, dist_mean := 1, assignment := [(1, 0)],
        microclusters := [(0, new_microcluster [(''a'', \<lparr>tfvalue = 1, ids = [Some 1]\<rparr>)] (Some 1) 1 None
                               (Some 1) (Some 0))],
        clusterId := 1\<rparr>, None)"
  by (simp add: init_def updateweights_def fade_def new_microcluster_def omega_default)

theorem predict_one_macro_raises_witness:
  "(let s = fst (learn_one exact_variance
                   (init (3 / 10) (1 / 2000) 100 True False ''tfidf_cosine_distance''
                      ''tfidf_cosine_distance'' 3 0 False True 1)
                   [(''a'', 1)] None (Some (Some 1)))
    in [(''a'', 1 :: real)] \<noteq> [] \<and> ''macro'' \<noteq> ''micro''
     \<and> micro_distance s = ''tfidf_cosine_distance'' \<and> updateweights s = (s, None)
     \<and> map fst (microclusters s) = [0] \<and> \<not> upToDate s \<and> microToMacro s = None
     \<and> predict_one s [(''a'', 1)] ''micro'' = (s, Inr (Some 0))
     \<and> predict_one s [(''a'', 1)] ''macro'' = (s, Inl AttributeError))"
proof -
  define s where "s = fst (learn_one exact_variance
                   (init (3 / 10) (1 / 2000) 100 True False ''tfidf_cosine_distance''
                      ''tfidf_cosine_distance'' 3 0 False True 1)
                   [(''a'', 1)] None (Some (Some 1)))"
  have s: "s = (init (3 / 10) (1 / 2000) 100 True False ''tfidf_cosine_distance''
                  ''tfidf_cosine_distance'' 3 0 False True 1)
      \<lparr>t_now := Some 1, n_obs := 2, dist_mean := 1, assignment := [(1, 0)],
        microclusters := [(0, new_microcluster [(''a'', \<lparr>tfvalue = 1, ids = [Some 1]\<rparr>)] (Some 1) 1 None
                               (Some 1) (Some 0))],
        clusterId := 1\<rparr>"
    unfolding s_def learn_first by simp
  have u: "updateweights s = (s, None)"
    unfolding s by (rule first_state_updateweights)
  have f: "micro_distance s = ''tfidf_cosine_distance''" "map fst (microclusters s) = [0]"
    "\<not> upToDate s" "microToMacro s = None"
    by (simp_all add: s init_def)
  have x: "[(''a'', 1 :: real)] \<noteq> []" and t: "''macro'' \<noteq> ''micro''"
    by simp_all
  from predict_one_macro_raises [OF x t, of s] f(1) u
  have 1: "predict_one s [(''a'', 1)] ''macro'' = (s, Inl AttributeError)"
    by simp
  have 2: "predict_one s [(''a'', 1)] ''micro'' = (s, Inr (Some 0))"
    unfolding predict_one_def get_assignment_def u
    by (simp add: s init_def make_ngrams_def new_microcluster_def calculateIDF_def dict_values_def
        keys_def dist_def tfidf_cosine_distance_def py_round_def round_half_even_def Let_def)
  show ?thesis
    unfolding Let_def s_def [symmetric] using x t f u 1 2 by simp
qed


end
